theory Spec2Isabelle
  imports Complex_Main "HOL-Library.Sublist"
begin

section \<open>Common conventions\<close>

text \<open>
  Python's unbounded integers are \<^typ>\<open>int\<close>. Labels that the code compares with ASCII
  literals (roles, modes, emotion names, statuses) are \<^typ>\<open>string\<close>; free text (message
  contents) is a list of Unicode code points, so that \<open>len\<close> counts what Python counts.

  A Python float is represented by the real number it denotes. In \<open>injection_system.py\<close>
  the arithmetic on floats is a parameter \<open>fp\<close> of every function that computes with them:
  the rounded operations, the conversion of a decimal literal and of an integer, and the
  numpy routines the code calls. The program is the instance of IEEE double arithmetic and
  of numpy; what is proved for every \<open>fp\<close> holds of it. Comparisons, \<open>min\<close>, \<open>max\<close>,
  \<open>np.clip\<close> and \<open>int()\<close> do not round and are written directly, as are the literals that
  a double holds exactly (0, 0.5, 1, 2, 1000). In \<open>proactive_initiation.py\<close> floats are
  read as reals.
\<close>

type_synonym ustring = "nat list"

record float_ops =
  fadd :: "real \<Rightarrow> real \<Rightarrow> real"
  fsub :: "real \<Rightarrow> real \<Rightarrow> real"
  fmul :: "real \<Rightarrow> real \<Rightarrow> real"
  fdiv :: "real \<Rightarrow> real \<Rightarrow> real"
  flit :: "real \<Rightarrow> real"
  fint :: "int \<Rightarrow> real"
  np_log :: "real \<Rightarrow> real"
  np_dot :: "real list \<Rightarrow> real list \<Rightarrow> real"
  np_norm :: "real list \<Rightarrow> real"
  np_mean :: "real list \<Rightarrow> real"
  np_var :: "real list \<Rightarrow> real"
  np_std :: "real list \<Rightarrow> real"

text \<open>
  The instance without rounding: the mathematical value of each operation, with
  \<open>np.var\<close> and \<open>np.std\<close> at their default \<open>ddof = 0\<close> (population variance).
\<close>

definition exact_mean :: "real list \<Rightarrow> real" where
  "exact_mean xs = sum_list xs / real (length xs)"

definition exact_var :: "real list \<Rightarrow> real" where
  "exact_var xs = exact_mean (map (\<lambda>x. (x - exact_mean xs)\<^sup>2) xs)"

definition exact_std :: "real list \<Rightarrow> real" where
  "exact_std xs = sqrt (exact_var xs)"

definition exact_dot :: "real list \<Rightarrow> real list \<Rightarrow> real" where
  "exact_dot u v = sum_list (map2 (*) u v)"

definition exact_norm :: "real list \<Rightarrow> real" where
  "exact_norm v = sqrt (sum_list (map (\<lambda>x. x\<^sup>2) v))"

definition exact_ops :: float_ops where
  "exact_ops = \<lparr> fadd = (+), fsub = (-), fmul = (*), fdiv = (/), flit = (\<lambda>x. x),
     fint = real_of_int, np_log = ln, np_dot = exact_dot, np_norm = exact_norm,
     np_mean = exact_mean, np_var = exact_var, np_std = exact_std \<rparr>"

text \<open>Python's \<open>int(x)\<close> on a float truncates towards zero.\<close>

definition py_int :: "real \<Rightarrow> int" where
  "py_int x = (if 0 \<le> x then \<lfloor>x\<rfloor> else \<lceil>x\<rceil>)"

text \<open>\<open>np.clip(x, lo, hi)\<close> is \<open>minimum(hi, maximum(x, lo))\<close>.\<close>

definition np_clip :: "real \<Rightarrow> real \<Rightarrow> real \<Rightarrow> real" where
  "np_clip x lo hi = min hi (max x lo)"

text \<open>The slice \<open>xs[-n:]\<close> for a positive literal \<open>n\<close>.\<close>

definition last_n :: "nat \<Rightarrow> 'a list \<Rightarrow> 'a list" where
  "last_n n xs = drop (length xs - n) xs"

section \<open>injection\_system.py\<close>

subsection \<open>Configuration and the Redis store\<close>

datatype InjectionPriority = CORE | MODE | EMOTION | PERSONAL

fun priority_value :: "InjectionPriority \<Rightarrow> int" where
  "priority_value CORE = 100"
| "priority_value MODE = 80"
| "priority_value EMOTION = 60"
| "priority_value PERSONAL = 40"

record InjectionConfig =
  max_tokens :: int
  cache_ttl :: int
  max_injections_per_dialogue :: int
  entropy_threshold :: real
  latency_budget_ms :: int

definition default_config :: InjectionConfig where
  "default_config = \<lparr> max_tokens = 65, cache_ttl = 3600, max_injections_per_dialogue = 2,
     entropy_threshold = 7 / 10, latency_budget_ms = 120 \<rparr>"

text \<open>
  The template strings of the source are Cyrillic literals; each is represented by a
  constructor naming the table entry it comes from. An injection text is the list of its
  fragments, joined by single spaces in the source; the empty list is the empty string.
\<close>

datatype keyword = Mystic | Balkanism ustring

datatype trait = Playfulness | Irony | MagicRealism

datatype fragment =
    Header
  | CoreBase | CoreFormatViolation | CoreCharacterDrift
  | BoostTalk | BoostExpert | BoostWriter
  | ModJoy | ModSadness | ModSurprise | ModNeutral
  | LtmAnchor "keyword list"
  | MicroBalance
  | MicroAccent "trait list"

type_synonym injection_text = "fragment list"

text \<open>
  The keys the class touches in Redis, one map per key family: the per-user injection
  counter, the injection cache (value and the time-to-live passed to \<open>setex\<close>), the last
  emotion marker and the per-user activity counter; and the one setting of the client that
  the code depends on: whether replies are decoded to \<open>str\<close> (\<open>decode_responses=True\<close>, as
  \<open>telegram_bot.py\<close> builds the client) or returned as \<open>bytes\<close>. The store is taken to be
  reachable: connection failures are outside this model, and so is the expiry of keys over
  time, any state of the maps being a possible start.
\<close>

record redis_store =
  decode_responses :: bool
  injection_count :: "int \<rightharpoonup> int"
  injections :: "string \<rightharpoonup> (injection_text \<times> int)"
  last_emotion :: "int \<rightharpoonup> string"
  user_activity :: "int \<rightharpoonup> int"

definition empty_redis :: redis_store where
  "empty_redis = \<lparr> decode_responses = True, injection_count = Map.empty,
     injections = Map.empty, last_emotion = Map.empty, user_activity = Map.empty \<rparr>"

subsection \<open>The injection counter and \<open>should_inject\<close>\<close>

definition get_injection_count :: "redis_store \<Rightarrow> int \<Rightarrow> int" where
  "get_injection_count r user_id =
     (case injection_count r user_id of None \<Rightarrow> 0 | Some c \<Rightarrow> c)"

text \<open>\<open>INCR\<close> creates a missing key with value 1.\<close>

definition increment_injection_count :: "redis_store \<Rightarrow> int \<Rightarrow> redis_store" where
  "increment_injection_count r user_id =
     r\<lparr>injection_count := (injection_count r)(user_id \<mapsto>
        (case injection_count r user_id of None \<Rightarrow> 1 | Some c \<Rightarrow> c + 1))\<rparr>"

definition should_inject :: "InjectionConfig \<Rightarrow> redis_store \<Rightarrow> int \<Rightarrow> real \<Rightarrow> bool" where
  "should_inject cfg r user_id dialogue_entropy =
     (let user_count = get_injection_count r user_id in
      if user_count \<ge> max_injections_per_dialogue cfg then False
      else if dialogue_entropy < entropy_threshold cfg then False
      else True)"

subsection \<open>History records and long-term memories\<close>

text \<open>
  A history record is a dictionary with the keys \<open>role\<close>, \<open>content\<close> and, possibly,
  \<open>bot_mode\<close>; \<open>None\<close> stands for an absent \<open>bot_mode\<close> key.
\<close>

record message =
  role :: string
  content :: ustring
  bot_mode :: "string option"

text \<open>
  The style markers of a memory: the truth value of the magic-realism marker and the list
  of balkanisms. A memory without markers (or with an empty dictionary) has \<open>None\<close>.
\<close>

record style_markers_rec =
  magrealism :: bool
  balkanisms :: "ustring list"

record memory =
  mem_id :: int
  user_message :: ustring
  bot_response :: ustring
  importance_score :: "int option"
  memory_type :: "string option"
  style_markers :: "style_markers_rec option"
  mem_created_at :: int

subsection \<open>Vector anchors\<close>

definition style_playful :: "float_ops \<Rightarrow> real list" where
  "style_playful fp = map (flit fp) [8 / 10, 2 / 10, 6 / 10, 9 / 10]"

definition style_analytical :: "float_ops \<Rightarrow> real list" where
  "style_analytical fp = map (flit fp) [3 / 10, 9 / 10, 4 / 10, 2 / 10]"

definition style_mystical :: "float_ops \<Rightarrow> real list" where
  "style_mystical fp = map (flit fp) [5 / 10, 4 / 10, 3 / 10, 95 / 100]"

definition style_ironic :: "float_ops \<Rightarrow> real list" where
  "style_ironic fp = map (flit fp) [6 / 10, 3 / 10, 95 / 100, 4 / 10]"

definition style_neutral :: "float_ops \<Rightarrow> real list" where
  "style_neutral fp = [1 / 2, 1 / 2, 1 / 2, 1 / 2]"

text \<open>Element-wise sum of two arrays and product of an array with a scalar.\<close>

definition vec_add :: "float_ops \<Rightarrow> real list \<Rightarrow> real list \<Rightarrow> real list" where
  "vec_add fp u v = map2 (fadd fp) u v"

definition vec_scale :: "float_ops \<Rightarrow> real list \<Rightarrow> real \<Rightarrow> real list" where
  "vec_scale fp v c = map (\<lambda>x. fmul fp x c) v"

definition style_step :: "float_ops \<Rightarrow> real list \<Rightarrow> message \<Rightarrow> real list" where
  "style_step fp style_scores msg =
     (if bot_mode msg = Some ''talk''
        then vec_add fp style_scores (vec_scale fp (style_playful fp) (flit fp (1 / 10)))
      else if bot_mode msg = Some ''expert''
        then vec_add fp style_scores (vec_scale fp (style_analytical fp) (flit fp (1 / 10)))
      else if bot_mode msg = Some ''writer''
        then vec_add fp style_scores (vec_scale fp (style_mystical fp) (flit fp (1 / 10)))
      else style_scores)"

definition encode_user_style :: "float_ops \<Rightarrow> message list \<Rightarrow> real list" where
  "encode_user_style fp user_history =
     (if user_history = [] then style_neutral fp
      else map (\<lambda>x. np_clip x 0 1)
             (foldl (style_step fp) [0, 0, 0, 0] (last_n 10 user_history)))"

text \<open>The loop that builds one vector per user turn, each from a one-element history.\<close>

fun collect_vectors :: "float_ops \<Rightarrow> message list \<Rightarrow> real list list" where
  "collect_vectors fp [] = []"
| "collect_vectors fp (msg # rest) =
     (if role msg = ''user'' then encode_user_style fp [msg] # collect_vectors fp rest
      else collect_vectors fp rest)"

text \<open>
  \<open>cos_sim = np.dot(a, b) / (np.linalg.norm(a) * np.linalg.norm(b) + 1e-8)\<close> and
  \<open>distance = 1 - cos_sim\<close>.
\<close>

definition cosine_distance :: "float_ops \<Rightarrow> real list \<Rightarrow> real list \<Rightarrow> real" where
  "cosine_distance fp u v =
     fsub fp 1
       (fdiv fp (np_dot fp u v)
          (fadd fp (fmul fp (np_norm fp u) (np_norm fp v)) (flit fp (1 / 10 ^ 8))))"

definition pairwise_distances :: "float_ops \<Rightarrow> real list list \<Rightarrow> real list" where
  "pairwise_distances fp vectors =
     map (\<lambda>i. cosine_distance fp (vectors ! i) (vectors ! (i + 1)))
       [0 ..< length vectors - 1]"

definition calculate_style_volatility :: "float_ops \<Rightarrow> message list \<Rightarrow> real" where
  "calculate_style_volatility fp user_history =
     (if length user_history < 5 then 1 / 2
      else
        let vectors = collect_vectors fp (last_n 10 user_history) in
        if length vectors < 2 then 1 / 2
        else
          let distances = pairwise_distances fp vectors in
          if distances \<noteq> [] then np_clip (fmul fp (np_std fp distances) 2) 0 1
          else 1 / 2)"

definition vector_to_micro_prompt :: "float_ops \<Rightarrow> real list \<Rightarrow> fragment" where
  "vector_to_micro_prompt fp vector =
     (let playful = vector ! 0; ironic = vector ! 2; magical = vector ! 3;
          traits = (if playful > flit fp (7 / 10) then [Playfulness] else [])
                 @ (if ironic > flit fp (7 / 10) then [Irony] else [])
                 @ (if magical > flit fp (8 / 10) then [MagicRealism] else [])
      in if traits = [] then MicroBalance else MicroAccent (take 2 traits))"

definition memory_keywords :: "memory \<Rightarrow> keyword list" where
  "memory_keywords m =
     (case style_markers m of
        None \<Rightarrow> []
      | Some markers \<Rightarrow>
          (if magrealism markers then [Mystic] else [])
          @ (if balkanisms markers \<noteq> [] then map Balkanism (take 1 (balkanisms markers))
             else []))"

definition get_ltm_anchor :: "int \<Rightarrow> memory list \<Rightarrow> fragment option" where
  "get_ltm_anchor user_id ltm_memories =
     (if ltm_memories = [] then None
      else
        let style_keywords = concat (map memory_keywords (take 3 ltm_memories)) in
        if style_keywords \<noteq> [] then Some (LtmAnchor (take 2 style_keywords)) else None)"

subsection \<open>Dialogue entropy\<close>

definition bot_mode_or_auto :: "message \<Rightarrow> string" where
  "bot_mode_or_auto msg = (case bot_mode msg of None \<Rightarrow> ''auto'' | Some m \<Rightarrow> m)"

fun count_mode_changes :: "string \<Rightarrow> message list \<Rightarrow> nat" where
  "count_mode_changes prev_mode [] = 0"
| "count_mode_changes prev_mode (msg # rest) =
     (let curr_mode = bot_mode_or_auto msg
      in (if curr_mode \<noteq> prev_mode then 1 else 0) + count_mode_changes curr_mode rest)"

definition calculate_dialogue_entropy :: "float_ops \<Rightarrow> message list \<Rightarrow> real" where
  "calculate_dialogue_entropy fp messages =
     (if length messages < 3 then 0
      else
        let mode_changes = count_mode_changes (bot_mode_or_auto (hd messages)) (tl messages);
            lengths = map (\<lambda>m. fint fp (int (length (content m))))
                          (filter (\<lambda>m. role m = ''user'') messages);
            length_variance =
              (if lengths \<noteq> []
               then fdiv fp (np_var fp lengths) (fadd fp (np_mean fp lengths) 1)
               else 0)
        in min 1
             (fadd fp
                (fmul fp (fdiv fp (fint fp (int mode_changes)) (fint fp (int (length messages))))
                   (1 / 2))
                (fmul fp (min 1 (fdiv fp length_variance 1000)) (1 / 2))))"

subsection \<open>The injection cache\<close>

text \<open>
  \<open>get_cached_injection\<close> reads the key and calls \<open>.decode('utf-8')\<close> on a truthy reply,
  inside \<open>try\<close>. A client that replies with \<open>bytes\<close> gets the text back. A client built
  with \<open>decode_responses=True\<close> replies with \<open>str\<close>, which has no \<open>decode\<close>: the
  exception is caught and logged, and the function returns \<open>None\<close>.
\<close>

definition get_cached_injection :: "redis_store \<Rightarrow> string \<Rightarrow> injection_text option" where
  "get_cached_injection r cache_key =
     (case injections r cache_key of
        None \<Rightarrow> None
      | Some (cached, ttl) \<Rightarrow>
          if cached \<noteq> [] then (if decode_responses r then None else Some cached)
          else None)"

text \<open>
  \<open>cache_injection\<close> computes the time-to-live and calls \<open>setex\<close> inside \<open>try\<close>. Redis
  rejects an expiry that is not positive; the exception is caught and logged, and nothing
  is stored.
\<close>

definition cache_injection ::
  "float_ops \<Rightarrow> redis_store \<Rightarrow> string \<Rightarrow> injection_text \<Rightarrow> int \<Rightarrow> int \<Rightarrow> redis_store" where
  "cache_injection fp r cache_key injection ttl activity =
     (let dynamic_ttl =
            py_int (fmul fp (fint fp ttl) (fadd fp 1 (np_log fp (fint fp (max 1 activity)))))
      in if 0 < dynamic_ttl
         then r\<lparr>injections := (injections r)(cache_key \<mapsto> (injection, dynamic_ttl))\<rparr>
         else r)"

definition get_user_activity :: "redis_store \<Rightarrow> int \<Rightarrow> int" where
  "get_user_activity r user_id = (case user_activity r user_id of None \<Rightarrow> 1 | Some a \<Rightarrow> a)"

fun str_nat :: "nat \<Rightarrow> string" where
  "str_nat n =
     (if n < 10 then [char_of (48 + n)] else str_nat (n div 10) @ [char_of (48 + n mod 10)])"

declare str_nat.simps [simp del]

fun join :: "string \<Rightarrow> string list \<Rightarrow> string" where
  "join sep [] = []"
| "join sep [x] = x"
| "join sep (x # y # rest) = x @ sep @ join sep (y # rest)"

text \<open>
  The cache key is the first 16 hexadecimal digits of the MD5 digest of the key string;
  the digest function of \<open>hashlib\<close> is a parameter.
\<close>

definition generate_cache_key ::
  "(string \<Rightarrow> string) \<Rightarrow> int \<Rightarrow> string \<Rightarrow> string \<Rightarrow> string option \<Rightarrow> string" where
  "generate_cache_key md5_hexdigest user_id mode emotion violation =
     (let components = [str_nat (nat (user_id mod 100)), mode, emotion]
            @ (case violation of None \<Rightarrow> [] | Some v \<Rightarrow> if v \<noteq> [] then [v] else []);
          key_string = join '':'' components
      in take 16 (md5_hexdigest key_string))"

subsection \<open>Composition\<close>

definition core_template :: "string \<Rightarrow> fragment" where
  "core_template violation_type =
     (if violation_type = ''base'' then CoreBase
      else if violation_type = ''format_violation'' then CoreFormatViolation
      else if violation_type = ''character_drift'' then CoreCharacterDrift
      else CoreBase)"

definition mode_booster :: "string \<Rightarrow> fragment option" where
  "mode_booster mode =
     (if mode = ''talk'' then Some BoostTalk
      else if mode = ''expert'' then Some BoostExpert
      else if mode = ''writer'' then Some BoostWriter
      else None)"

definition emotion_mod :: "string \<Rightarrow> fragment" where
  "emotion_mod emotion =
     (if emotion = ''joy'' then ModJoy
      else if emotion = ''sadness'' then ModSadness
      else if emotion = ''surprise'' then ModSurprise
      else ModNeutral)"

type_synonym selection = "(InjectionPriority \<times> fragment) list \<times> int"

definition add_core :: "string option \<Rightarrow> selection" where
  "add_core violation_type =
     (let core = (case violation_type of
                    None \<Rightarrow> CoreBase
                  | Some v \<Rightarrow> if v \<noteq> [] then core_template v else CoreBase)
      in ([(CORE, core)], 15))"

definition add_mode :: "InjectionConfig \<Rightarrow> string \<Rightarrow> selection \<Rightarrow> selection" where
  "add_mode cfg mode st =
     (case st of (components, tokens_used) \<Rightarrow>
        if tokens_used + 20 \<le> max_tokens cfg then
          (case mode_booster mode of
             Some mode_boost \<Rightarrow> (components @ [(MODE, mode_boost)], tokens_used + 20)
           | None \<Rightarrow> (components, tokens_used))
        else (components, tokens_used))"

definition add_emotion :: "InjectionConfig \<Rightarrow> string \<Rightarrow> selection \<Rightarrow> selection" where
  "add_emotion cfg emotion st =
     (case st of (components, tokens_used) \<Rightarrow>
        if tokens_used + 15 \<le> max_tokens cfg
        then (components @ [(EMOTION, emotion_mod emotion)], tokens_used + 15)
        else (components, tokens_used))"

definition add_personal ::
  "float_ops \<Rightarrow> InjectionConfig \<Rightarrow> int \<Rightarrow> message list \<Rightarrow> bool \<Rightarrow> memory list option
     \<Rightarrow> selection \<Rightarrow> selection" where
  "add_personal fp cfg user_id user_history is_authorized ltm_memories st =
     (case st of (components, tokens_used) \<Rightarrow>
        if is_authorized \<and> tokens_used + 20 \<le> max_tokens cfg then
          (let ltm_anchor =
                 (case ltm_memories of
                    None \<Rightarrow> None
                  | Some ms \<Rightarrow> if ms \<noteq> [] then get_ltm_anchor user_id ms else None)
           in case ltm_anchor of
                Some anchor \<Rightarrow> (components @ [(PERSONAL, anchor)], tokens_used + 20)
              | None \<Rightarrow>
                  (components
                     @ [(PERSONAL,
                         vector_to_micro_prompt fp (encode_user_style fp user_history))],
                   tokens_used + 20))
        else (components, tokens_used))"

text \<open>Step 2 of \<open>generate_injection\<close>: the components and the running \<open>tokens_used\<close>.\<close>

definition select_components ::
  "float_ops \<Rightarrow> InjectionConfig \<Rightarrow> int \<Rightarrow> string \<Rightarrow> string \<Rightarrow> message list
     \<Rightarrow> string option \<Rightarrow> bool \<Rightarrow> memory list option \<Rightarrow> selection" where
  "select_components fp cfg user_id mode emotion user_history violation_type is_authorized
       ltm_memories =
     add_personal fp cfg user_id user_history is_authorized ltm_memories
       (add_emotion cfg emotion (add_mode cfg mode (add_core violation_type)))"

subsection \<open>\<open>generate_injection\<close>\<close>

text \<open>
  The invalidation triggers. Trigger 1 is \<open>last_emotion and last_emotion != emotion\<close>:
  a \<open>str\<close> reply is compared with the emotion as text; a \<open>bytes\<close> reply never equals a
  \<open>str\<close>, so with such a client the trigger fires whenever the marker is there.
\<close>

definition should_ignore_cache ::
  "float_ops \<Rightarrow> redis_store \<Rightarrow> int \<Rightarrow> string \<Rightarrow> message list \<Rightarrow> string option \<Rightarrow> bool" where
  "should_ignore_cache fp r user_id emotion user_history violation_type =
     ((case last_emotion r user_id of
         None \<Rightarrow> False
       | Some e \<Rightarrow> e \<noteq> [] \<and> (if decode_responses r then e \<noteq> emotion else True))
      \<or> calculate_style_volatility fp user_history > flit fp (4 / 10)
      \<or> (case violation_type of None \<Rightarrow> False | Some v \<Rightarrow> v \<noteq> [])
      \<or> (length user_history > 3
          \<and> calculate_dialogue_entropy fp user_history > flit fp (8 / 10)))"

text \<open>
  \<open>generate_injection\<close> returns the text and the latency, and leaves the store updated.
  The two readings of the wall clock are inputs: \<open>start_time\<close> at entry and \<open>end_time\<close>
  at whichever return is taken.
\<close>

definition generate_injection ::
  "float_ops \<Rightarrow> (string \<Rightarrow> string) \<Rightarrow> InjectionConfig \<Rightarrow> redis_store \<Rightarrow> real \<Rightarrow> real \<Rightarrow> int
     \<Rightarrow> string \<Rightarrow> string \<Rightarrow> message list \<Rightarrow> string option \<Rightarrow> bool \<Rightarrow> memory list option
     \<Rightarrow> (injection_text \<times> int) \<times> redis_store" where
  "generate_injection fp md5_hexdigest cfg r start_time end_time user_id mode emotion
       user_history violation_type is_authorized ltm_memories =
     (let cache_key = generate_cache_key md5_hexdigest user_id mode emotion violation_type;
          volatility = calculate_style_volatility fp user_history;
          ignore_cache = should_ignore_cache fp r user_id emotion user_history violation_type;
          cached = get_cached_injection r cache_key;
          latency = py_int (fmul fp (fsub fp end_time start_time) 1000)
      in case (if \<not> is_authorized \<and> \<not> ignore_cache then cached else None) of
           Some cached_text \<Rightarrow> ((cached_text, latency), r)
         | None \<Rightarrow>
             let components = fst (select_components fp cfg user_id mode emotion user_history
                                     violation_type is_authorized ltm_memories);
                 sorted_components = sort_key (\<lambda>c. - priority_value (fst c)) components;
                 injection = Header # map snd sorted_components;
                 r1 = (if \<not> is_authorized then
                         let dynamic_ttl_factor =
                               fadd fp (flit fp (3 / 10))
                                 (fmul fp (flit fp (7 / 10)) (fsub fp 1 volatility));
                             dynamic_ttl =
                               py_int (fmul fp (fint fp (cache_ttl cfg)) dynamic_ttl_factor);
                             activity = get_user_activity r user_id;
                             r' = cache_injection fp r cache_key injection dynamic_ttl activity
                         in r'\<lparr>last_emotion := (last_emotion r')(user_id \<mapsto> emotion)\<rparr>
                       else r);
                 r2 = increment_injection_count r1 user_id
             in ((injection, latency), r2))"

subsection \<open>Token accounting\<close>

text \<open>
  The fixed token cost that \<open>generate_injection\<close> charges for a component of each
  priority class, and the sum of these costs over a list of components.
\<close>

fun component_cost :: "InjectionPriority \<Rightarrow> int" where
  "component_cost CORE = 15"
| "component_cost MODE = 20"
| "component_cost EMOTION = 15"
| "component_cost PERSONAL = 20"

definition included_cost :: "(InjectionPriority \<times> fragment) list \<Rightarrow> int" where
  "included_cost components = sum_list (map (\<lambda>c. component_cost (fst c)) components)"

text \<open>The running total is the cost of the components selected so far and fits the budget.\<close>

definition within_budget :: "InjectionConfig \<Rightarrow> selection \<Rightarrow> bool" where
  "within_budget cfg st = (snd st = included_cost (fst st) \<and> snd st \<le> max_tokens cfg)"

subsection \<open>Volatility, as the specification describes it\<close>

text \<open>
  Written from the specification, without the functions of the code: the standard
  deviation of a list (population form, as \<open>np.std\<close> documents its default), the cosine
  distance of two vectors, and the distance that the code uses in its place, with
  \<open>1e-8\<close> added to the product of the norms.
\<close>

definition standard_deviation :: "real list \<Rightarrow> real" where
  "standard_deviation xs =
     sqrt ((\<Sum>x\<leftarrow>xs. (x - (\<Sum>y\<leftarrow>xs. y) / real (length xs))\<^sup>2) / real (length xs))"

definition true_cosine_distance :: "real list \<Rightarrow> real list \<Rightarrow> real" where
  "true_cosine_distance u v =
     1 - (\<Sum>(a, b)\<leftarrow>zip u v. a * b) / (sqrt (\<Sum>a\<leftarrow>u. a\<^sup>2) * sqrt (\<Sum>b\<leftarrow>v. b\<^sup>2))"

definition regularised_cosine_distance :: "real list \<Rightarrow> real list \<Rightarrow> real" where
  "regularised_cosine_distance u v =
     1 - (\<Sum>(a, b)\<leftarrow>zip u v. a * b)
           / (sqrt (\<Sum>a\<leftarrow>u. a\<^sup>2) * sqrt (\<Sum>b\<leftarrow>v. b\<^sup>2) + 1 / 10 ^ 8)"

text \<open>One vector per user turn among the last ten records, from a one-element window.\<close>

definition user_turn_vectors :: "float_ops \<Rightarrow> message list \<Rightarrow> real list list" where
  "user_turn_vectors fp user_history =
     map (\<lambda>msg. encode_user_style fp [msg])
       (filter (\<lambda>msg. role msg = ''user'') (last_n 10 user_history))"

text \<open>
  The volatility the specification describes, for a given distance: the standard deviation
  of the distances of consecutive vectors, times 2, clipped to the interval from 0 to 1.
\<close>

definition spec_volatility ::
  "(real list \<Rightarrow> real list \<Rightarrow> real) \<Rightarrow> real list list \<Rightarrow> real" where
  "spec_volatility distance vectors =
     np_clip (standard_deviation (map (\<lambda>(u, v). distance u v) (zip vectors (tl vectors))) * 2) 0 1"

subsection \<open>Example inputs\<close>

definition umsg :: message where
  "umsg = \<lparr> role = ''user'', content = [], bot_mode = None \<rparr>"

definition amsg :: message where
  "amsg = \<lparr> role = ''assistant'', content = [], bot_mode = None \<rparr>"

definition talk_msg :: message where
  "talk_msg = \<lparr> role = ''user'', content = [], bot_mode = Some ''talk'' \<rparr>"

definition expert_msg :: message where
  "expert_msg = \<lparr> role = ''user'', content = [], bot_mode = Some ''expert'' \<rparr>"

definition quiet_history :: "message list" where
  "quiet_history = [umsg, amsg, umsg, amsg, amsg]"

definition swing_history :: "message list" where
  "swing_history = [talk_msg, amsg, talk_msg, amsg, umsg]"

definition drift_history :: "message list" where
  "drift_history = [talk_msg, amsg, talk_msg, amsg, expert_msg]"

definition hit_key :: string where
  "hit_key = generate_cache_key (\<lambda>s. s) 7 ''talk'' ''joy'' None"

text \<open>
  Two stores that hold a cached injection under the key of user 7, mode \<open>talk\<close>, emotion
  \<open>joy\<close>. The first is read through the client of \<open>telegram_bot.py\<close> and is the state
  that a first unauthorized call leaves behind. The second is read through a client that
  replies with bytes, the marker of the last emotion being absent.
\<close>

definition warm_redis :: redis_store where
  "warm_redis =
     empty_redis\<lparr>injection_count := [7 \<mapsto> 1],
       injections := [hit_key \<mapsto> ([Header, CoreBase, BoostTalk, ModJoy], 3600)],
       last_emotion := [7 \<mapsto> ''joy'']\<rparr>"

definition bytes_redis :: redis_store where
  "bytes_redis =
     empty_redis\<lparr>decode_responses := False,
       injections := [hit_key \<mapsto> ([Header, CoreBase, BoostTalk, ModJoy], 3600)]\<rparr>"

section \<open>proactive\_initiation.py\<close>

subsection \<open>Time and configuration\<close>

text \<open>
  A \<open>datetime\<close> is a number of microseconds since the epoch (UTC), a \<open>timedelta\<close> a
  number of microseconds. \<open>NOW()\<close> in a query and \<open>datetime.now(timezone.utc)\<close> in the
  surrounding Python are read as the same instant \<open>now\<close>, an input of each operation.
\<close>

type_synonym datetime = int

definition interval_minutes :: "int \<Rightarrow> int" where
  "interval_minutes n = n * 60000000"

definition interval_hours :: "int \<Rightarrow> int" where
  "interval_hours n = n * 3600000000"

definition interval_days :: "int \<Rightarrow> int" where
  "interval_days n = n * 86400000000"


definition total_seconds :: "int \<Rightarrow> real" where
  "total_seconds d = real_of_int d / 1000000"

text \<open>The constants of \<open>config.py\<close> that the modelled functions read.\<close>

record proactivity_config =
  INITIATION_MIN_QUALITY_SCORE :: real
  SILENCE_AFTER_IGNORED_COUNT :: int
  SILENCE_MIN_RESPONSE_LENGTH :: int

definition default_proactivity_config :: proactivity_config where
  "default_proactivity_config = \<lparr> INITIATION_MIN_QUALITY_SCORE = 6 / 10,
     SILENCE_AFTER_IGNORED_COUNT = 2, SILENCE_MIN_RESPONSE_LENGTH = 10 \<rparr>"

subsection \<open>Tables\<close>

datatype InitiationType = CONTINUATION | INSIGHT | SUPPORTIVE

datatype InitiationStatus = PENDING | SENT | CANCELLED | FAILED

text \<open>
  The table declarations are not part of the repository; the columns are those the
  queries name. A column that a query tests for \<open>NULL\<close>, or that an insert leaves unset,
  is an \<open>option\<close>; the flags are booleans (default false).
\<close>

record users_row =
  u_user_id :: int
  u_is_authorized :: bool

record settings_row =
  ups_user_id :: int
  is_enabled :: bool
  paused_until :: "datetime option"
  pause_reason :: "string option"
  ab_test_group :: "string option"
  ups_updated_at :: "datetime option"

record schedule_row =
  sched_id :: int
  sched_user_id :: int
  scheduled_at :: datetime
  initiation_type :: string
  source_memory_ids :: "int list"
  sched_emotion_context :: "string option"
  status :: InitiationStatus
  sent_at :: "datetime option"
  error_message :: "string option"
  user_response_received :: bool

record log_row =
  log_id :: int
  log_user_id :: int
  initiation_id :: "int option"
  message_content :: ustring
  log_initiation_type :: string
  log_created_at :: datetime
  user_response :: "ustring option"
  user_response_emotion :: "string option"
  user_response_sentiment :: "real option"
  user_response_length :: "int option"
  user_responded :: bool
  response_time_minutes :: "int option"

record history_row =
  h_user_id :: int
  h_role :: string
  h_content :: ustring
  emotion_primary :: "string option"
  h_bot_mode :: string
  h_created_at :: datetime

record database =
  users :: "users_row list"
  user_proactivity_settings :: "settings_row list"
  initiation_schedule :: "schedule_row list"
  initiation_logs :: "log_row list"
  initiation_logs_seq :: int
  history :: "history_row list"

subsection \<open>Eligible users\<close>

definition pause_over :: "datetime \<Rightarrow> settings_row \<Rightarrow> bool" where
  "pause_over now ups = (case paused_until ups of None \<Rightarrow> True | Some t \<Rightarrow> t < now)"

definition get_eligible_users :: "database \<Rightarrow> datetime \<Rightarrow> int list" where
  "get_eligible_users db now =
     concat (map (\<lambda>ups.
        map (\<lambda>u. ups_user_id ups)
          (filter (\<lambda>u. ups_user_id ups = u_user_id u
                       \<and> is_enabled ups
                       \<and> pause_over now ups
                       \<and> u_is_authorized u
                       \<and> ab_test_group ups = Some ''A'')
             (users db)))
       (user_proactivity_settings db))"

subsection \<open>Continuation mining\<close>









subsection \<open>Silence mode\<close>

definition ignored_count :: "database \<Rightarrow> datetime \<Rightarrow> int \<Rightarrow> int" where
  "ignored_count db now user_id =
     int (length (filter (\<lambda>l. log_user_id l = user_id
                              \<and> log_created_at l > now - interval_days 7
                              \<and> \<not> user_responded l)
                    (initiation_logs db)))"

text \<open>\<open>AVG\<close> ignores \<open>NULL\<close> values and is \<open>NULL\<close> when no value is left.\<close>

definition avg_length :: "database \<Rightarrow> datetime \<Rightarrow> int \<Rightarrow> real option" where
  "avg_length db now user_id =
     (let vals = List.map_filter user_response_length
                   (filter (\<lambda>l. log_user_id l = user_id
                                 \<and> log_created_at l > now - interval_days 7
                                 \<and> user_responded l)
                      (initiation_logs db))
      in if vals = [] then None
         else Some (real_of_int (sum_list vals) / real (length vals)))"

definition recent_emotions :: "database \<Rightarrow> datetime \<Rightarrow> int \<Rightarrow> string option list" where
  "recent_emotions db now user_id =
     map emotion_primary
       (take 5 (sort_key (\<lambda>h. - h_created_at h)
          (filter (\<lambda>h. h_user_id h = user_id \<and> h_role h = ''user''
                        \<and> h_created_at h > now - interval_hours 24)
             (history db))))"

definition stress_count :: "database \<Rightarrow> datetime \<Rightarrow> int \<Rightarrow> nat" where
  "stress_count db now user_id =
     length (filter (\<lambda>e. e \<in> {Some ''sadness'', Some ''anger'', Some ''fear''})
               (recent_emotions db now user_id))"

definition is_in_silence_mode :: "proactivity_config \<Rightarrow> database \<Rightarrow> datetime \<Rightarrow> int \<Rightarrow> bool" where
  "is_in_silence_mode cfg db now user_id =
     (if ignored_count db now user_id \<ge> SILENCE_AFTER_IGNORED_COUNT cfg then True
      else if (case avg_length db now user_id of
                 None \<Rightarrow> False
               | Some a \<Rightarrow> a \<noteq> 0 \<and> a < real_of_int (SILENCE_MIN_RESPONSE_LENGTH cfg))
        then True
      else if stress_count db now user_id \<ge> 3 then True
      else False)"

subsection \<open>Continuation quality, as the specification describes it\<close>


subsection \<open>Example tables\<close>

definition empty_db :: database where
  "empty_db = \<lparr> users = [], user_proactivity_settings = [], initiation_schedule = [],
     initiation_logs = [], initiation_logs_seq = 0, history = [] \<rparr>"

definition opted_in :: "int \<Rightarrow> string \<Rightarrow> settings_row" where
  "opted_in uid grp = \<lparr> ups_user_id = uid, is_enabled = True, paused_until = None,
     pause_reason = None, ab_test_group = Some grp, ups_updated_at = None \<rparr>"

definition eligibility_db :: database where
  "eligibility_db = empty_db\<lparr>
     users := [\<lparr> u_user_id = 1, u_is_authorized = True \<rparr>,
               \<lparr> u_user_id = 2, u_is_authorized = False \<rparr>,
               \<lparr> u_user_id = 3, u_is_authorized = True \<rparr>],
     user_proactivity_settings := [opted_in 1 ''A'', opted_in 2 ''A'', opted_in 3 ''B''] \<rparr>"

definition sent_log :: "int \<Rightarrow> int \<Rightarrow> datetime \<Rightarrow> log_row" where
  "sent_log i uid t = \<lparr> log_id = i, log_user_id = uid, initiation_id = Some i,
     message_content = [], log_initiation_type = ''continuation'', log_created_at = t,
     user_response = None, user_response_emotion = None, user_response_sentiment = None,
     user_response_length = None, user_responded = False, response_time_minutes = None \<rparr>"

definition one_ignored_db :: database where
  "one_ignored_db = empty_db\<lparr> initiation_logs := [sent_log 1 7 0] \<rparr>"

definition two_ignored_db :: database where
  "two_ignored_db = empty_db\<lparr> initiation_logs := [sent_log 1 7 0, sent_log 2 7 0] \<rparr>"


subsection \<open>Dispatch\<close>

definition get_pending_initiations :: "database \<Rightarrow> datetime \<Rightarrow> schedule_row list" where
  "get_pending_initiations db now =
     take 50 (sort_key scheduled_at
                (filter (\<lambda>s. status s = PENDING \<and> scheduled_at s \<le> now)
                   (initiation_schedule db)))"

text \<open>
  \<open>_mark_initiation_sent\<close>: the row is looked up by id; the status update, the log row
  and the history record follow. None of the updates tests the current status.
\<close>

definition mark_initiation_sent :: "database \<Rightarrow> datetime \<Rightarrow> int \<Rightarrow> ustring \<Rightarrow> database" where
  "mark_initiation_sent db now initiation_id_arg message_text =
     (case find (\<lambda>s. sched_id s = initiation_id_arg) (initiation_schedule db) of
        None \<Rightarrow> db
      | Some result \<Rightarrow>
          db\<lparr> initiation_schedule :=
                map (\<lambda>s. if sched_id s = initiation_id_arg
                          then s\<lparr> status := SENT, sent_at := Some now \<rparr> else s)
                  (initiation_schedule db),
              initiation_logs := initiation_logs db @
                [\<lparr> log_id = initiation_logs_seq db + 1,
                   log_user_id = sched_user_id result,
                   initiation_id = Some initiation_id_arg,
                   message_content = message_text,
                   log_initiation_type = initiation_type result,
                   log_created_at = now,
                   user_response = None, user_response_emotion = None,
                   user_response_sentiment = None, user_response_length = None,
                   user_responded = False, response_time_minutes = None \<rparr>],
              initiation_logs_seq := initiation_logs_seq db + 1,
              history := history db @
                [\<lparr> h_user_id = sched_user_id result, h_role = ''assistant'',
                   h_content = message_text, emotion_primary = None,
                   h_bot_mode = ''proactive'', h_created_at = now \<rparr>] \<rparr>)"

definition mark_initiation_failed :: "database \<Rightarrow> int \<Rightarrow> string \<Rightarrow> database" where
  "mark_initiation_failed db initiation_id_arg error =
     db\<lparr> initiation_schedule :=
           map (\<lambda>s. if sched_id s = initiation_id_arg
                     then s\<lparr> status := FAILED, error_message := Some error \<rparr> else s)
             (initiation_schedule db) \<rparr>"

text \<open>
  What happens to one initiation outside the database (the language model writes the
  message, Telegram delivers it) is an input of the sweep: the message was delivered, and
  \<open>NOW()\<close> reads the given instant when the row is marked; the delivery reported failure;
  or an exception was raised.
\<close>

datatype delivery = Delivered datetime ustring | NotDelivered | Raised string

subsection \<open>Response correlation\<close>

definition positive_words :: "ustring list" where
  "positive_words =
     [[1089, 1087, 1072, 1089, 1080, 1073, 1086],
      [1080, 1085, 1090, 1077, 1088, 1077, 1089, 1085, 1086],
      [1079, 1076, 1086, 1088, 1086, 1074, 1086],
      [1086, 1090, 1083, 1080, 1095, 1085, 1086],
      [1076, 1072],
      [1082, 1086, 1085, 1077, 1095, 1085, 1086],
      [1093, 1086, 1088, 1086, 1096, 1086]]"

definition negative_words :: "ustring list" where
  "negative_words =
     [[1085, 1077, 1090],
      [1085, 1077, 32, 1085, 1072, 1076, 1086],
      [1086, 1090, 1089, 1090, 1072, 1085, 1100],
      [1091, 1089, 1090, 1072, 1083],
      [1079, 1072, 1085, 1103, 1090],
      [1087, 1086, 1090, 1086, 1084],
      [1085, 1077, 1080, 1085, 1090, 1077, 1088, 1077, 1089, 1085, 1086]]"

definition emotion_sentiment :: "string \<Rightarrow> real" where
  "emotion_sentiment e =
     (if e = ''joy'' then 8 / 10
      else if e = ''love'' then 9 / 10
      else if e = ''surprise'' then 6 / 10
      else if e = ''neutral'' then 0
      else if e = ''sadness'' then - (6 / 10)
      else if e = ''anger'' then - (8 / 10)
      else if e = ''fear'' then - (7 / 10)
      else if e = ''disgust'' then - (9 / 10)
      else 0)"

definition analyze_response_sentiment ::
  "(ustring \<Rightarrow> ustring) \<Rightarrow> ustring \<Rightarrow> string option \<Rightarrow> real" where
  "analyze_response_sentiment lower message_text emotion =
     (let base_sentiment =
            (case emotion of None \<Rightarrow> 0
             | Some e \<Rightarrow> if e \<noteq> [] then emotion_sentiment e else 0);
          text_lower = lower message_text;
          positive_count = length (filter (\<lambda>w. sublist w text_lower) positive_words);
          negative_count = length (filter (\<lambda>w. sublist w text_lower) negative_words);
          text_sentiment = (real positive_count - real negative_count) * (2 / 10);
          final_sentiment = base_sentiment * (7 / 10) + text_sentiment * (3 / 10)
      in max (- 1) (min 1 final_sentiment))"

definition unresponded_in_window :: "datetime \<Rightarrow> int \<Rightarrow> log_row \<Rightarrow> bool" where
  "unresponded_in_window now user_id l =
     (log_user_id l = user_id \<and> \<not> user_responded l
      \<and> log_created_at l > now - interval_hours 24)"

text \<open>The most recent unresponded entry of the user within the last 24 hours.\<close>

definition find_unresponded :: "database \<Rightarrow> datetime \<Rightarrow> int \<Rightarrow> log_row option" where
  "find_unresponded db now user_id =
     (case sort_key (\<lambda>l. - log_created_at l)
             (filter (unresponded_in_window now user_id) (initiation_logs db)) of
        [] \<Rightarrow> None
      | l # rest \<Rightarrow> Some l)"

definition process_user_response ::
  "(ustring \<Rightarrow> ustring) \<Rightarrow> database \<Rightarrow> datetime \<Rightarrow> int \<Rightarrow> ustring \<Rightarrow> string option
     \<Rightarrow> bool \<times> database" where
  "process_user_response lower db now user_id message_text emotion =
     (case find_unresponded db now user_id of
        None \<Rightarrow> (False, db)
      | Some log_entry \<Rightarrow>
          let response_time = total_seconds (now - log_created_at log_entry) / 60;
              sentiment = analyze_response_sentiment lower message_text emotion;
              logs' = map (\<lambda>l. if log_id l = log_id log_entry
                               then l\<lparr> user_response := Some (take 1000 message_text),
                                       user_response_emotion := emotion,
                                       user_response_sentiment := Some sentiment,
                                       user_response_length := Some (int (length message_text)),
                                       user_responded := True,
                                       response_time_minutes := Some (py_int response_time) \<rparr>
                               else l)
                        (initiation_logs db);
              schedule' =
                (case initiation_id log_entry of
                   None \<Rightarrow> initiation_schedule db
                 | Some i \<Rightarrow>
                     if i \<noteq> 0
                     then map (\<lambda>s. if sched_id s = i
                                    then s\<lparr> user_response_received := True \<rparr> else s)
                            (initiation_schedule db)
                     else initiation_schedule db)
          in (True, db\<lparr> initiation_logs := logs', initiation_schedule := schedule' \<rparr>))"

subsection \<open>Cancellation (cron\_jobs.py, proactive\_commands.py)\<close>

definition cleanup_old_initiations :: "database \<Rightarrow> datetime \<Rightarrow> database" where
  "cleanup_old_initiations db now =
     db\<lparr> initiation_schedule :=
           map (\<lambda>s. if status s = PENDING \<and> scheduled_at s < now - interval_hours 48
                     then s\<lparr> status := CANCELLED \<rparr> else s)
             (initiation_schedule db),
         initiation_logs :=
           filter (\<lambda>l. \<not> log_created_at l < now - interval_days 30) (initiation_logs db) \<rparr>"

definition disable_proactivity :: "database \<Rightarrow> datetime \<Rightarrow> int \<Rightarrow> database" where
  "disable_proactivity db now user_id =
     db\<lparr> user_proactivity_settings :=
           map (\<lambda>ups. if ups_user_id ups = user_id
                       then ups\<lparr> is_enabled := False, ups_updated_at := Some now \<rparr> else ups)
             (user_proactivity_settings db),
         initiation_schedule :=
           map (\<lambda>s. if sched_user_id s = user_id \<and> status s = PENDING
                     then s\<lparr> status := CANCELLED \<rparr> else s)
             (initiation_schedule db) \<rparr>"

definition set_proactivity_pause :: "database \<Rightarrow> datetime \<Rightarrow> int \<Rightarrow> datetime \<Rightarrow> database" where
  "set_proactivity_pause db now user_id pause_until =
     db\<lparr> user_proactivity_settings :=
           map (\<lambda>ups. if ups_user_id ups = user_id
                       then ups\<lparr> paused_until := Some pause_until,
                                 pause_reason := Some ''user_pause'',
                                 ups_updated_at := Some now \<rparr>
                       else ups)
             (user_proactivity_settings db),
         initiation_schedule :=
           map (\<lambda>s. if sched_user_id s = user_id \<and> status s = PENDING
                        \<and> scheduled_at s \<le> pause_until
                     then s\<lparr> status := CANCELLED \<rparr> else s)
             (initiation_schedule db) \<rparr>"

subsection \<open>Sequences of operations\<close>

text \<open>
  The operations that write the schedule table, each of them a call that runs to its
  commit without an \<open>await\<close>: the two marking functions, the response correlator and the
  three cancelling operations.
\<close>

datatype engine_op =
    MarkSent datetime int ustring
  | MarkFailed int string
  | Respond datetime int ustring "string option"
  | Cleanup datetime
  | Disable datetime int
  | Pause datetime int datetime

fun apply_op :: "(ustring \<Rightarrow> ustring) \<Rightarrow> database \<Rightarrow> engine_op \<Rightarrow> database" where
  "apply_op lower db (MarkSent now initiation_id_arg message_text) =
     mark_initiation_sent db now initiation_id_arg message_text"
| "apply_op lower db (MarkFailed initiation_id_arg error) =
     mark_initiation_failed db initiation_id_arg error"
| "apply_op lower db (Respond now user_id message_text emotion) =
     snd (process_user_response lower db now user_id message_text emotion)"
| "apply_op lower db (Cleanup now) = cleanup_old_initiations db now"
| "apply_op lower db (Disable now user_id) = disable_proactivity db now user_id"
| "apply_op lower db (Pause now user_id pause_until) =
     set_proactivity_pause db now user_id pause_until"

definition run_engine :: "(ustring \<Rightarrow> ustring) \<Rightarrow> database \<Rightarrow> engine_op list \<Rightarrow> database" where
  "run_engine lower db ops = foldl (apply_op lower) db ops"

text \<open>
  \<open>send_scheduled_initiations\<close> is a coroutine. It fetches the pending rows once; then,
  for each fetched row in turn, it awaits the message and its delivery and calls one of
  the marking functions with the id of that row. Whatever else the event loop has to do
  runs at these awaits. What the sweep does to the database is thus the sequence of
  marking operations below, one per fetched row, and the operations of others may come
  between any two of them and before the first.
\<close>

definition mark_for :: "(schedule_row \<Rightarrow> delivery) \<Rightarrow> schedule_row \<Rightarrow> engine_op" where
  "mark_for deliver initiation =
     (case deliver initiation of
        Delivered now message_text \<Rightarrow> MarkSent now (sched_id initiation) message_text
      | NotDelivered \<Rightarrow> MarkFailed (sched_id initiation) ''Failed to send via Telegram''
      | Raised e \<Rightarrow> MarkFailed (sched_id initiation) e)"

definition send_scheduled_initiations ::
  "(schedule_row \<Rightarrow> delivery) \<Rightarrow> datetime \<Rightarrow> database \<Rightarrow> engine_op list" where
  "send_scheduled_initiations deliver now db =
     map (mark_for deliver) (get_pending_initiations db now)"

text \<open>
  A marking operation comes in order when every row with its id is pending, or has the
  status that the operation writes; the other operations always do. A sequence is in
  order when each of its operations is, in the database it is applied to.
\<close>

definition rows_with_id :: "database \<Rightarrow> int \<Rightarrow> schedule_row list" where
  "rows_with_id db i = filter (\<lambda>s. sched_id s = i) (initiation_schedule db)"

fun mark_in_order :: "database \<Rightarrow> engine_op \<Rightarrow> bool" where
  "mark_in_order db (MarkSent now i message_text) =
     list_all (\<lambda>s. status s = PENDING \<or> status s = SENT) (rows_with_id db i)"
| "mark_in_order db (MarkFailed i error) =
     list_all (\<lambda>s. status s = PENDING \<or> status s = FAILED) (rows_with_id db i)"
| "mark_in_order db (Respond now user_id message_text emotion) = True"
| "mark_in_order db (Cleanup now) = True"
| "mark_in_order db (Disable now user_id) = True"
| "mark_in_order db (Pause now user_id pause_until) = True"

fun marks_in_order :: "(ustring \<Rightarrow> ustring) \<Rightarrow> database \<Rightarrow> engine_op list \<Rightarrow> bool" where
  "marks_in_order lower db [] = True"
| "marks_in_order lower db (op # ops) =
     (mark_in_order db op \<and> marks_in_order lower (apply_op lower db op) ops)"




definition schedule_example :: "int \<Rightarrow> int \<Rightarrow> datetime \<Rightarrow> InitiationStatus \<Rightarrow> schedule_row" where
  "schedule_example i uid t st = \<lparr> sched_id = i, sched_user_id = uid, scheduled_at = t,
     initiation_type = ''continuation'', source_memory_ids = [], sched_emotion_context = None,
     status = st, sent_at = None, error_message = None, user_response_received = False \<rparr>"


definition response_db :: database where
  "response_db = empty_db\<lparr> initiation_schedule := [schedule_example 1 7 0 SENT],
     initiation_logs := [sent_log 1 7 0] \<rparr>"


definition dispatch_db :: database where
  "dispatch_db = empty_db\<lparr> initiation_schedule :=
     [schedule_example 1 7 0 PENDING, schedule_example 2 7 0 SENT,
      schedule_example 3 8 0 PENDING, schedule_example 4 8 1000 PENDING] \<rparr>"


definition overtaken_ops :: "engine_op list" where
  "overtaken_ops =
     Disable 105 7 # send_scheduled_initiations (\<lambda>s. Delivered 110 []) 100 dispatch_db"

section \<open>Verified properties\<close>

text \<open>
  C5. \<open>should_inject\<close> is false whenever the persistent injection counter of the user
  has reached the configured maximum, whatever the entropy; and it is false as well when
  the counter is below the maximum but the dialogue entropy is below the configured
  threshold.
\<close>

theorem should_inject_quota_and_entropy_gate:
  "(get_injection_count r user_id \<ge> max_injections_per_dialogue cfg
      \<longrightarrow> \<not> should_inject cfg r user_id dialogue_entropy)
   \<and> (get_injection_count r user_id < max_injections_per_dialogue cfg
        \<and> dialogue_entropy < entropy_threshold cfg
      \<longrightarrow> \<not> should_inject cfg r user_id dialogue_entropy)"
  by (simp add: should_inject_def Let_def)

theorem should_inject_quota_and_entropy_gate_witness:
  "get_injection_count (empty_redis\<lparr>injection_count := [7 \<mapsto> 2]\<rparr>) 7
      \<ge> max_injections_per_dialogue default_config
   \<and> \<not> should_inject default_config (empty_redis\<lparr>injection_count := [7 \<mapsto> 2]\<rparr>) 7 (95 / 100)
   \<and> get_injection_count empty_redis 7 < max_injections_per_dialogue default_config
   \<and> (1 / 2 :: real) < entropy_threshold default_config
   \<and> \<not> should_inject default_config empty_redis 7 (1 / 2)"
  using should_inject_quota_and_entropy_gate
          [where r = "empty_redis\<lparr>injection_count := [7 \<mapsto> 2]\<rparr>" and user_id = 7
             and cfg = default_config and dialogue_entropy = "95 / 100"]
        should_inject_quota_and_entropy_gate
          [where r = empty_redis and user_id = 7 and cfg = default_config
             and dialogue_entropy = "1 / 2"]
  by (simp add: get_injection_count_def empty_redis_def default_config_def)

subsection \<open>Token budget of the composition\<close>

lemma add_core_budget: "15 \<le> max_tokens cfg \<Longrightarrow> within_budget cfg (add_core v)"
  by (simp add: within_budget_def add_core_def included_cost_def Let_def)

lemma add_mode_budget: "within_budget cfg st \<Longrightarrow> within_budget cfg (add_mode cfg mode st)"
  by (cases st) (auto simp: within_budget_def add_mode_def included_cost_def split: option.splits)

lemma add_emotion_budget:
  "within_budget cfg st \<Longrightarrow> within_budget cfg (add_emotion cfg emotion st)"
  by (cases st) (auto simp: within_budget_def add_emotion_def included_cost_def)

lemma add_personal_budget:
  "within_budget cfg st \<Longrightarrow> within_budget cfg (add_personal fp cfg u h a l st)"
  by (cases st)
     (auto simp: within_budget_def add_personal_def included_cost_def Let_def split: option.splits)

lemma select_components_within_budget:
  assumes "15 \<le> max_tokens cfg"
  shows "within_budget cfg (select_components fp cfg user_id mode emotion user_history
           violation_type is_authorized ltm_memories)"
proof -
  from assms have "within_budget cfg (add_core violation_type)"
    by (rule add_core_budget)
  then have "within_budget cfg
      (add_emotion cfg emotion (add_mode cfg mode (add_core violation_type)))"
    by (intro add_emotion_budget add_mode_budget)
  then show ?thesis
    unfolding select_components_def by (rule add_personal_budget)
qed

text \<open>
  The components are appended in descending priority, so the stable sort of step 3 leaves
  their order as it is.
\<close>

lemma sort_selected_components:
  "sort_key (\<lambda>c. - priority_value (fst c))
     (fst (select_components fp cfg user_id mode emotion user_history violation_type
             is_authorized ltm_memories))
   = fst (select_components fp cfg user_id mode emotion user_history violation_type
            is_authorized ltm_memories)"
  by (auto simp: select_components_def add_core_def add_mode_def add_emotion_def
        add_personal_def Let_def split: option.splits)

text \<open>
  C2, as stated, fails: the core component is charged its 15 tokens without any check
  against the budget, so a configured budget below 15 is exceeded. Here the budget is 10
  and the composition for an unauthorized user in mode \<open>talk\<close> costs 15.
\<close>

theorem budget_exceeded_by_core_counterexample:
  "\<not> included_cost (fst (select_components exact_ops (default_config\<lparr>max_tokens := 10\<rparr>) 7
          ''talk'' ''joy'' [] None False None))
       \<le> max_tokens (default_config\<lparr>max_tokens := 10\<rparr>)"
  by (simp add: select_components_def add_core_def add_mode_def add_emotion_def
        add_personal_def included_cost_def default_config_def)

text \<open>
  C2, amended. Whenever the configured budget is at least 15 (the cost of the core, which
  is admitted unconditionally), the sum of the fixed token costs of the components that
  \<open>generate_injection\<close> includes is at most the budget, for every mode, emotion,
  authorization flag, violation type, history and long-term-memory input (and whatever
  the float arithmetic).
\<close>

theorem included_cost_within_budget:
  "15 \<le> max_tokens cfg \<Longrightarrow>
     included_cost (fst (select_components fp cfg user_id mode emotion user_history
                           violation_type is_authorized ltm_memories))
       \<le> max_tokens cfg"
  using select_components_within_budget
          [of cfg fp user_id mode emotion user_history violation_type is_authorized ltm_memories]
  by (simp add: within_budget_def)

theorem included_cost_within_budget_witness:
  "15 \<le> max_tokens default_config
   \<and> included_cost (fst (select_components exact_ops default_config 7 ''talk'' ''joy'' [] None
                           True None))
       \<le> max_tokens default_config
   \<and> included_cost (fst (select_components exact_ops default_config 7 ''talk'' ''joy'' [] None
                           True None))
       = 50"
  using included_cost_within_budget
          [of default_config exact_ops 7 "''talk''" "''joy''" "[]" None True None]
  by (simp add: select_components_def add_core_def add_mode_def add_emotion_def
        add_personal_def included_cost_def default_config_def mode_booster_def Let_def)

subsection \<open>Style volatility\<close>

lemma collect_vectors_eq:
  "collect_vectors fp xs
     = map (\<lambda>msg. encode_user_style fp [msg]) (filter (\<lambda>msg. role msg = ''user'') xs)"
  by (induction xs) auto

lemma pairwise_distances_zip:
  "pairwise_distances fp vs = map (\<lambda>(u, v). cosine_distance fp u v) (zip vs (tl vs))"
  unfolding pairwise_distances_def
  by (rule nth_equalityI) (auto simp: nth_tl)

lemma pairwise_nonempty: "2 \<le> length vs \<Longrightarrow> pairwise_distances fp vs \<noteq> []"
  by (simp add: pairwise_distances_def)

text \<open>Without rounding, the functions of the code compute what the specification names.\<close>

lemma exact_cosine_distance:
  "cosine_distance exact_ops u v = regularised_cosine_distance u v"
  by (simp add: cosine_distance_def regularised_cosine_distance_def exact_ops_def
        exact_dot_def exact_norm_def)

lemma exact_std_standard_deviation: "np_std exact_ops xs = standard_deviation xs"
  by (simp add: exact_ops_def exact_std_def exact_var_def exact_mean_def
        standard_deviation_def)

lemma exact_volatility_general:
  assumes "5 \<le> length h" and "2 \<le> length (user_turn_vectors exact_ops h)"
  shows "calculate_style_volatility exact_ops h
           = spec_volatility regularised_cosine_distance (user_turn_vectors exact_ops h)"
proof -
  let ?vs = "user_turn_vectors exact_ops h"
  have vs: "collect_vectors exact_ops (last_n 10 h) = ?vs"
    by (simp add: collect_vectors_eq user_turn_vectors_def)
  have ds: "pairwise_distances exact_ops ?vs
      = map (\<lambda>(u, v). regularised_cosine_distance u v) (zip ?vs (tl ?vs))"
    by (simp add: pairwise_distances_zip exact_cosine_distance)
  have ne: "pairwise_distances exact_ops ?vs \<noteq> []"
    using assms(2) by (rule pairwise_nonempty)
  have mul: "fmul exact_ops x 2 = x * 2" for x
    by (simp add: exact_ops_def)
  from assms ne show ?thesis
    unfolding calculate_style_volatility_def spec_volatility_def vs Let_def
    by (simp add: mul exact_std_standard_deviation ds)
qed

text \<open>The standard deviation of two values is half their distance.\<close>

lemma standard_deviation_pair: "standard_deviation [a, b] = \<bar>a - b\<bar> / 2"
proof -
  have "((a - (a + b) / 2)\<^sup>2 + (b - (a + b) / 2)\<^sup>2) / 2 = ((a - b) / 2)\<^sup>2"
    by (simp add: power2_eq_square field_simps)
  then have "standard_deviation [a, b] = sqrt (((a - b) / 2)\<^sup>2)"
    by (simp add: standard_deviation_def)
  then show ?thesis by simp
qed

lemma encode_umsg: "encode_user_style exact_ops [umsg] = [0, 0, 0, 0]"
  by (simp add: encode_user_style_def umsg_def last_n_def style_step_def np_clip_def)

lemma encode_talk_msg:
  "encode_user_style exact_ops [talk_msg] = [8 / 100, 2 / 100, 6 / 100, 9 / 100]"
  by (simp add: encode_user_style_def talk_msg_def last_n_def style_step_def np_clip_def
        vec_add_def vec_scale_def style_playful_def exact_ops_def)

lemma encode_expert_msg:
  "encode_user_style exact_ops [expert_msg] = [3 / 100, 9 / 100, 4 / 100, 2 / 100]"
  by (simp add: encode_user_style_def expert_msg_def last_n_def style_step_def np_clip_def
        vec_add_def vec_scale_def style_analytical_def exact_ops_def)

lemma quiet_length: "length quiet_history = 5"
  by (simp add: quiet_history_def)

lemma swing_length: "length swing_history = 5"
  by (simp add: swing_history_def)

lemma drift_length: "length drift_history = 5"
  by (simp add: drift_history_def)

lemma quiet_vectors:
  "user_turn_vectors exact_ops quiet_history = [[0, 0, 0, 0], [0, 0, 0, 0]]"
  using encode_umsg
  by (simp add: user_turn_vectors_def quiet_history_def last_n_def umsg_def amsg_def)

lemma swing_vectors:
  "user_turn_vectors exact_ops swing_history
     = [[8 / 100, 2 / 100, 6 / 100, 9 / 100], [8 / 100, 2 / 100, 6 / 100, 9 / 100],
        [0, 0, 0, 0]]"
  using encode_umsg encode_talk_msg
  by (simp add: user_turn_vectors_def swing_history_def last_n_def umsg_def amsg_def
        talk_msg_def)

lemma drift_vectors:
  "user_turn_vectors exact_ops drift_history
     = [[8 / 100, 2 / 100, 6 / 100, 9 / 100], [8 / 100, 2 / 100, 6 / 100, 9 / 100],
        [3 / 100, 9 / 100, 4 / 100, 2 / 100]]"
  using encode_expert_msg encode_talk_msg
  by (simp add: user_turn_vectors_def drift_history_def last_n_def expert_msg_def amsg_def
        talk_msg_def)

lemma quiet_volatility: "calculate_style_volatility exact_ops quiet_history = 0"
proof -
  have "calculate_style_volatility exact_ops quiet_history
      = spec_volatility regularised_cosine_distance (user_turn_vectors exact_ops quiet_history)"
    by (rule exact_volatility_general) (simp_all add: quiet_length quiet_vectors)
  also have "\<dots> = 0"
    by (simp add: quiet_vectors spec_volatility_def standard_deviation_def np_clip_def)
  finally show ?thesis .
qed

lemma swing_volatility:
  "calculate_style_volatility exact_ops swing_history = 1850000 / 1850001"
proof -
  have "calculate_style_volatility exact_ops swing_history
      = spec_volatility regularised_cosine_distance (user_turn_vectors exact_ops swing_history)"
    by (rule exact_volatility_general) (simp_all add: swing_length swing_vectors)
  also have "\<dots> = 1850000 / 1850001"
    by (simp add: swing_vectors spec_volatility_def standard_deviation_pair
          regularised_cosine_distance_def np_clip_def power2_eq_square)
  finally show ?thesis .
qed


text \<open>
  C6, as stated, fails in its general case: the distances whose deviation the code takes
  are not cosine distances, the code adding \<open>1e-8\<close> to the product of the norms. For
  three user turns in modes \<open>talk\<close>, \<open>talk\<close>, \<open>expert\<close> the value returned (without
  rounding) differs from the one that the cosine distances give.
\<close>

theorem volatility_not_of_cosine_distances_counterexample:
  "calculate_style_volatility exact_ops drift_history
     \<noteq> spec_volatility true_cosine_distance (user_turn_vectors exact_ops drift_history)"
proof -
  define s :: real where "s = sqrt (37 / 2000) * sqrt (11 / 1000)"
  have s2: "s * s = 407 / 2000000"
  proof -
    have a: "sqrt (37 / 2000) * sqrt (37 / 2000) = (37 / 2000 :: real)"
      by simp
    have b: "sqrt (11 / 1000) * sqrt (11 / 1000) = (11 / 1000 :: real)"
      by simp
    have "s * s = (sqrt (37 / 2000) * sqrt (37 / 2000))
        * (sqrt (11 / 1000) * sqrt (11 / 1000))"
      unfolding s_def by (simp only: mult_ac)
    also have "\<dots> = 407 / 2000000"
      unfolding a b by simp
    finally show ?thesis .
  qed
  have s_pos: "0 < s"
    by (simp add: s_def)
  have s_low: "14 / 1000 < s"
  proof (rule ccontr)
    assume "\<not> 14 / 1000 < s"
    with s_pos have "s * s \<le> (14 / 1000) * (14 / 1000)"
      by (intro mult_mono) simp_all
    with s2 show False by simp
  qed
  have s_high: "s < 15 / 1000"
  proof (rule ccontr)
    assume "\<not> s < 15 / 1000"
    then have "(15 / 1000) * (15 / 1000) \<le> s * s"
      by (intro mult_mono) simp_all
    with s2 show False by simp
  qed
  define eps :: real where "eps = 1 / 10 ^ 8"
  define dc2 where "dc2 = 1 - (84 / 10000) / (s + eps)"
  define dt2 where "dt2 = 1 - (84 / 10000) / s"
  define p :: "real list" where "p = [8 / 100, 2 / 100, 6 / 100, 9 / 100]"
  define a :: "real list" where "a = [3 / 100, 9 / 100, 4 / 100, 2 / 100]"
  have sq_p: "(\<Sum>x\<leftarrow>p. x\<^sup>2) = 37 / 2000"
    by (simp add: p_def power2_eq_square)
  have sq_a: "(\<Sum>x\<leftarrow>a. x\<^sup>2) = 11 / 1000"
    by (simp add: a_def power2_eq_square)
  have dot_pp: "(\<Sum>(x, y)\<leftarrow>zip p p. x * y) = 37 / 2000"
    by (simp add: p_def)
  have dot_pa: "(\<Sum>(x, y)\<leftarrow>zip p a. x * y) = 84 / 10000"
    by (simp add: p_def a_def)
  have norm_pp: "sqrt (37 / 2000) * sqrt (37 / 2000) = (37 / 2000 :: real)"
    by simp
  have reg_pp: "regularised_cosine_distance p p = 1 / 1850001"
    unfolding regularised_cosine_distance_def sq_p dot_pp norm_pp
    by simp
  have reg_pa: "regularised_cosine_distance p a = dc2"
    unfolding regularised_cosine_distance_def sq_p sq_a dot_pa dc2_def s_def eps_def
    by (rule refl)
  have true_pp: "true_cosine_distance p p = 0"
    unfolding true_cosine_distance_def sq_p dot_pp norm_pp
    by simp
  have true_pa: "true_cosine_distance p a = dt2"
    unfolding true_cosine_distance_def sq_p sq_a dot_pa dt2_def s_def
    by (rule refl)
  have vectors: "user_turn_vectors exact_ops drift_history = [p, p, a]"
    unfolding p_def a_def by (rule drift_vectors)
  have code: "calculate_style_volatility exact_ops drift_history
      = np_clip (\<bar>1 / 1850001 - dc2\<bar>) 0 1"
  proof -
    have "calculate_style_volatility exact_ops drift_history
        = spec_volatility regularised_cosine_distance
            (user_turn_vectors exact_ops drift_history)"
      by (rule exact_volatility_general) (simp_all add: drift_length vectors)
    also have "\<dots> = np_clip (\<bar>1 / 1850001 - dc2\<bar>) 0 1"
      by (simp add: vectors spec_volatility_def standard_deviation_pair reg_pp reg_pa)
    finally show ?thesis .
  qed
  have spec: "spec_volatility true_cosine_distance (user_turn_vectors exact_ops drift_history)
      = np_clip (\<bar>0 - dt2\<bar>) 0 1"
    by (simp add: vectors spec_volatility_def standard_deviation_pair true_pp true_pa)
  have ratio_low: "56 / 100 < (84 / 10000) / s"
    using s_pos s_high by (simp add: field_simps)
  have ratio_high: "(84 / 10000) / s < 6 / 10"
    using s_pos s_low by (simp add: field_simps)
  have dt2_range: "4 / 10 < dt2" "dt2 < 44 / 100"
    using ratio_low ratio_high by (simp_all add: dt2_def)
  have gap: "(84 / 10000) / s - (84 / 10000) / (s + eps) < 1 / 1850001"
  proof -
    have "(84 / 10000) / s - (84 / 10000) / (s + eps) = (84 / 10000) * eps / (s * (s + eps))"
      using s_pos by (simp add: field_simps eps_def)
    also have "\<dots> < (84 / 10000) * eps / (s * s)"
      using s_pos by (intro divide_strict_left_mono mult_strict_left_mono)
        (simp_all add: eps_def)
    also have "\<dots> < 1 / 1850001"
      by (simp add: s2 eps_def)
    finally show ?thesis .
  qed
  have dc2_low: "dt2 \<le> dc2"
  proof -
    have "(84 / 10000) / (s + eps) \<le> (84 / 10000) / s"
      using s_pos by (intro divide_left_mono) (simp_all add: eps_def)
    then show ?thesis by (simp add: dc2_def dt2_def)
  qed
  have dc2_high: "dc2 < 1"
    using s_pos by (simp add: dc2_def eps_def)
  have less: "dc2 - 1 / 1850001 < dt2"
    using gap by (simp add: dc2_def dt2_def)
  have code_val: "np_clip (\<bar>1 / 1850001 - dc2\<bar>) 0 1 = dc2 - 1 / 1850001"
    using dc2_low dc2_high dt2_range by (simp add: np_clip_def)
  have spec_val: "np_clip (\<bar>0 - dt2\<bar>) 0 1 = dt2"
    using dt2_range by (simp add: np_clip_def)
  from less show ?thesis
    unfolding code spec code_val spec_val by simp
qed

text \<open>
  C6, amended. A history of fewer than 5 records has volatility exactly 0.5; a longer
  history that yields fewer than 2 per-user-turn vectors has volatility 0.5 as well, both
  in any float arithmetic. Otherwise the value returned is, up to the rounding of the
  float operations (here: without rounding), the population standard deviation, times 2
  and clipped to the interval from 0 to 1, of the distances of consecutive vectors, the
  distance of \<open>u\<close> and \<open>v\<close> being \<open>1 - u\<cdot>v / (|u| |v| + 1e-8)\<close>.
\<close>

theorem style_volatility_cases:
  "(length h < 5 \<longrightarrow> calculate_style_volatility fp h = 1 / 2)
   \<and> (5 \<le> length h \<and> length (user_turn_vectors fp h) < 2
        \<longrightarrow> calculate_style_volatility fp h = 1 / 2)
   \<and> (5 \<le> length h \<and> 2 \<le> length (user_turn_vectors exact_ops h)
        \<longrightarrow> calculate_style_volatility exact_ops h
            = spec_volatility regularised_cosine_distance (user_turn_vectors exact_ops h))"
proof (intro conjI impI)
  assume "length h < 5"
  then show "calculate_style_volatility fp h = 1 / 2"
    by (simp add: calculate_style_volatility_def)
next
  assume "5 \<le> length h \<and> length (user_turn_vectors fp h) < 2"
  then show "calculate_style_volatility fp h = 1 / 2"
    by (simp add: calculate_style_volatility_def collect_vectors_eq user_turn_vectors_def
          Let_def)
next
  assume "5 \<le> length h \<and> 2 \<le> length (user_turn_vectors exact_ops h)"
  then show "calculate_style_volatility exact_ops h
      = spec_volatility regularised_cosine_distance (user_turn_vectors exact_ops h)"
    by (intro exact_volatility_general) simp_all
qed

theorem style_volatility_cases_witness:
  "length ([] :: message list) < 5 \<and> calculate_style_volatility exact_ops [] = 1 / 2
   \<and> 5 \<le> length [amsg, amsg, amsg, amsg, amsg]
   \<and> length (user_turn_vectors exact_ops [amsg, amsg, amsg, amsg, amsg]) < 2
   \<and> calculate_style_volatility exact_ops [amsg, amsg, amsg, amsg, amsg] = 1 / 2
   \<and> 5 \<le> length swing_history \<and> 2 \<le> length (user_turn_vectors exact_ops swing_history)
   \<and> spec_volatility regularised_cosine_distance (user_turn_vectors exact_ops swing_history)
       = 1850000 / 1850001
   \<and> calculate_style_volatility exact_ops swing_history = 1850000 / 1850001"
proof -
  have a: "length (user_turn_vectors exact_ops [amsg, amsg, amsg, amsg, amsg]) < 2"
    by (simp add: user_turn_vectors_def last_n_def amsg_def)
  have sv: "spec_volatility regularised_cosine_distance
      (user_turn_vectors exact_ops swing_history) = 1850000 / 1850001"
    by (simp add: swing_vectors spec_volatility_def standard_deviation_pair
          regularised_cosine_distance_def np_clip_def power2_eq_square)
  from style_volatility_cases [of "[]" exact_ops]
       style_volatility_cases [of "[amsg, amsg, amsg, amsg, amsg]" exact_ops]
       style_volatility_cases [of swing_history exact_ops]
       a sv
  show ?thesis
    by (simp add: swing_length swing_vectors)
qed

subsection \<open>The injection counter across \<open>generate_injection\<close>\<close>

lemma exact_fields:
  "fadd exact_ops = (+)" "fsub exact_ops = (-)" "fmul exact_ops = (*)"
  "fdiv exact_ops = (/)" "flit exact_ops = (\<lambda>x. x)" "fint exact_ops = real_of_int"
  "np_log exact_ops = ln"
  by (simp_all add: exact_ops_def)

lemma quiet_entropy: "calculate_dialogue_entropy exact_ops quiet_history = 0"
  by (simp add: calculate_dialogue_entropy_def quiet_history_def umsg_def amsg_def
        bot_mode_or_auto_def exact_ops_def exact_var_def exact_mean_def)

lemma quiet_composition:
  "fst (select_components fp default_config 7 ''talk'' ''joy'' quiet_history None False None)
     = [(CORE, CoreBase), (MODE, BoostTalk), (EMOTION, ModJoy)]"
  by (simp add: select_components_def add_core_def add_mode_def add_emotion_def
        add_personal_def mode_booster_def emotion_mod_def default_config_def)

lemma quiet_injection:
  "map snd (sort_key (\<lambda>c. - priority_value (fst c))
      (fst (select_components fp default_config 7 ''talk'' ''joy'' quiet_history None False
              None)))
     = [CoreBase, BoostTalk, ModJoy]"
  by (simp add: quiet_composition)


lemma bytes_client_marker_fires:
  "\<lbrakk>\<not> decode_responses r; last_emotion r user_id = Some e; e \<noteq> []\<rbrakk>
   \<Longrightarrow> should_ignore_cache fp r user_id emotion user_history violation_type"
  by (simp add: should_ignore_cache_def)

text \<open>
  The two returns of \<open>generate_injection\<close>, in any float arithmetic and with either
  client: the early return hands back the cached text and leaves the store as it was; the
  return after composition leaves the caller's counter incremented by one and every other
  counter as it was.
\<close>

lemma cache_hit_returns_cached:
  "\<lbrakk>\<not> is_authorized;
    get_cached_injection r
      (generate_cache_key md5_hexdigest user_id mode emotion violation_type) = Some cached_text;
    \<not> should_ignore_cache fp r user_id emotion user_history violation_type\<rbrakk>
   \<Longrightarrow> fst (fst (generate_injection fp md5_hexdigest cfg r start_time end_time user_id mode
                  emotion user_history violation_type is_authorized ltm_memories))
         = cached_text
       \<and> snd (generate_injection fp md5_hexdigest cfg r start_time end_time user_id mode
                  emotion user_history violation_type is_authorized ltm_memories) = r"
  by (simp add: generate_injection_def Let_def)


lemma bytes_client_hit:
  "generate_injection exact_ops (\<lambda>s. s) default_config bytes_redis 0 0 7 ''talk'' ''joy''
       quiet_history None False None
     = (([Header, CoreBase, BoostTalk, ModJoy], 0), bytes_redis)"
  by (simp add: generate_injection_def Let_def should_ignore_cache_def quiet_volatility
        quiet_entropy quiet_length get_cached_injection_def bytes_redis_def empty_redis_def
        hit_key_def exact_fields py_int_def)

lemma first_call_state:
  "snd (generate_injection exact_ops (\<lambda>s. s) default_config empty_redis 0 0 7 ''talk''
          ''joy'' quiet_history None False None) = warm_redis"
proof -
  have base_ttl: "cache_ttl default_config = 3600"
    by (simp add: default_config_def)
  show ?thesis
    by (simp add: generate_injection_def Let_def should_ignore_cache_def quiet_volatility
          quiet_entropy quiet_length get_cached_injection_def warm_redis_def empty_redis_def
          hit_key_def quiet_injection cache_injection_def get_user_activity_def
          increment_injection_count_def exact_fields py_int_def base_ttl)
qed



subsection \<open>Time-to-live of the cache entry\<close>

text \<open>
  C3, as stated, fails: the cache-write primitive multiplies by
  \<open>1 + log(max(1, user_activity))\<close>, not by the logarithm alone. For an unauthorized
  user without recorded activity and a history of volatility 0, the entry is written with
  a time-to-live of 3600 seconds, where the stated formula gives 0. (At this input IEEE
  doubles give the same values as the arithmetic without rounding: the volatility is
  \<open>0.0\<close>, \<open>0.3 + 0.7 * (1 - 0.0)\<close> is \<open>1.0\<close> and \<open>log(1)\<close> is \<open>0.0\<close>.)
\<close>

theorem cache_ttl_log_scaling_counterexample:
  "injections (snd (generate_injection exact_ops (\<lambda>s. s) default_config empty_redis 0 0 7
                      ''talk'' ''joy'' quiet_history None False None))
         (generate_cache_key (\<lambda>s. s) 7 ''talk'' ''joy'' None)
     = Some ([Header, CoreBase, BoostTalk, ModJoy], 3600)
   \<and> real_of_int (cache_ttl default_config)
         * (3 / 10 + 7 / 10 * (1 - calculate_style_volatility exact_ops quiet_history))
         * ln (real_of_int (max 1 (get_user_activity empty_redis 7))) = 0"
proof -
  have written: "injections (snd (generate_injection exact_ops (\<lambda>s. s) default_config
      empty_redis 0 0 7 ''talk'' ''joy'' quiet_history None False None))
      (generate_cache_key (\<lambda>s. s) 7 ''talk'' ''joy'' None)
      = Some ([Header, CoreBase, BoostTalk, ModJoy], 3600)"
    by (simp add: first_call_state warm_redis_def hit_key_def)
  have stated: "real_of_int (cache_ttl default_config)
      * (3 / 10 + 7 / 10 * (1 - calculate_style_volatility exact_ops quiet_history))
      * ln (real_of_int (max 1 (get_user_activity empty_redis 7))) = 0"
    by (simp add: get_user_activity_def empty_redis_def)
  from written stated show ?thesis
    by (rule conjI)
qed

text \<open>
  C3, amended. Every unauthorized call that composes a fresh injection passes
  \<open>int(base_ttl * (0.3 + 0.7 * (1 - volatility)))\<close> to the cache-write primitive, which
  scales it to \<open>int(ttl * (1 + log(max(1, user_activity))))\<close>, all in float arithmetic
  and both conversions truncating. When the result is positive the composed text is
  stored under the cache key with that time-to-live; otherwise Redis rejects the write
  and the entry under the key stays as it was.
\<close>

theorem cache_ttl_written:
  "\<not> is_authorized
   \<and> (get_cached_injection r
            (generate_cache_key md5_hexdigest user_id mode emotion violation_type) = None
        \<or> should_ignore_cache fp r user_id emotion user_history violation_type)
   \<longrightarrow> (let passed_ttl =
               py_int (fmul fp (fint fp (cache_ttl cfg))
                  (fadd fp (flit fp (3 / 10))
                     (fmul fp (flit fp (7 / 10))
                        (fsub fp 1 (calculate_style_volatility fp user_history)))));
             written_ttl =
               py_int (fmul fp (fint fp passed_ttl)
                  (fadd fp 1 (np_log fp (fint fp (max 1 (get_user_activity r user_id))))))
         in injections (snd (generate_injection fp md5_hexdigest cfg r start_time end_time
                               user_id mode emotion user_history violation_type
                               is_authorized ltm_memories))
              (generate_cache_key md5_hexdigest user_id mode emotion violation_type)
            = (if 0 < written_ttl
               then Some (fst (fst (generate_injection fp md5_hexdigest cfg r start_time
                                      end_time user_id mode emotion user_history
                                      violation_type is_authorized ltm_memories)),
                          written_ttl)
               else injections r
                      (generate_cache_key md5_hexdigest user_id mode emotion
                         violation_type)))"
  by (auto simp: generate_injection_def Let_def increment_injection_count_def
        cache_injection_def split: option.splits)

theorem cache_ttl_written_witness:
  "get_cached_injection empty_redis (generate_cache_key (\<lambda>s. s) 7 ''talk'' ''joy'' None)
     = None
   \<and> injections (snd (generate_injection exact_ops (\<lambda>s. s) default_config empty_redis 0 0
                         7 ''talk'' ''joy'' quiet_history None False None))
         (generate_cache_key (\<lambda>s. s) 7 ''talk'' ''joy'' None)
       = Some (fst (fst (generate_injection exact_ops (\<lambda>s. s) default_config empty_redis
                           0 0 7 ''talk'' ''joy'' quiet_history None False None)), 3600)"
  using cache_ttl_written [where md5_hexdigest = "\<lambda>s. s" and cfg = default_config
          and r = empty_redis and fp = exact_ops and start_time = 0 and end_time = 0
          and user_id = 7 and mode = "''talk''" and emotion = "''joy''"
          and user_history = quiet_history and violation_type = None
          and is_authorized = False and ltm_memories = None]
  by (simp add: get_cached_injection_def empty_redis_def quiet_volatility default_config_def
        get_user_activity_def py_int_def exact_fields Let_def)

subsection \<open>Eligible users\<close>

lemma eligible_set:
  "set (get_eligible_users db now)
      = (\<Union>ups \<in> set (user_proactivity_settings db).
           (\<lambda>u. ups_user_id ups) ` {u \<in> set (users db). ups_user_id ups = u_user_id u
              \<and> is_enabled ups \<and> pause_over now ups \<and> u_is_authorized u
              \<and> ab_test_group ups = Some ''A''})"
  by (simp add: get_eligible_users_def)

lemma eligible_iff:
  "user_id \<in> set (get_eligible_users db now) \<longleftrightarrow>
     (\<exists>ups \<in> set (user_proactivity_settings db). \<exists>u \<in> set (users db).
        ups_user_id ups = user_id \<and> u_user_id u = user_id \<and> is_enabled ups
        \<and> pause_over now ups \<and> u_is_authorized u \<and> ab_test_group ups = Some ''A'')"
proof
  assume "user_id \<in> set (get_eligible_users db now)"
  then show "\<exists>ups \<in> set (user_proactivity_settings db). \<exists>u \<in> set (users db).
        ups_user_id ups = user_id \<and> u_user_id u = user_id \<and> is_enabled ups
        \<and> pause_over now ups \<and> u_is_authorized u \<and> ab_test_group ups = Some ''A''"
    unfolding eligible_set by auto
next
  assume "\<exists>ups \<in> set (user_proactivity_settings db). \<exists>u \<in> set (users db).
        ups_user_id ups = user_id \<and> u_user_id u = user_id \<and> is_enabled ups
        \<and> pause_over now ups \<and> u_is_authorized u \<and> ab_test_group ups = Some ''A''"
  then obtain ups u where h: "ups \<in> set (user_proactivity_settings db)" "u \<in> set (users db)"
      "ups_user_id ups = user_id" "u_user_id u = user_id" "is_enabled ups"
      "pause_over now ups" "u_is_authorized u" "ab_test_group ups = Some ''A''"
    by blast
  have "user_id \<in> (\<lambda>u. ups_user_id ups) ` {u \<in> set (users db). ups_user_id ups = u_user_id u
              \<and> is_enabled ups \<and> pause_over now ups \<and> u_is_authorized u
              \<and> ab_test_group ups = Some ''A''}"
    by (rule image_eqI [of _ _ u]) (use h in simp_all)
  with h(1) show "user_id \<in> set (get_eligible_users db now)"
    unfolding eligible_set by (rule UN_I)
qed

lemma pause_over_iff:
  "pause_over now ups \<longleftrightarrow>
     (paused_until ups = None \<or> (\<exists>t. paused_until ups = Some t \<and> t < now))"
  by (simp add: pause_over_def split: option.splits)

text \<open>
  C10. Every user id returned by the eligible-user query has a settings row with
  proactivity enabled, a pause that is unset or expired and A/B group \<open>A\<close>, and an
  authorized account; so an opted-in user who is not authorized, or whose A/B group is not
  \<open>A\<close>, is never returned. \<open>check_and_schedule_initiations\<close> iterates over exactly
  the returned list.
\<close>

theorem eligible_users_restricted:
  "(user_id \<in> set (get_eligible_users db now) \<longrightarrow>
      (\<exists>ups \<in> set (user_proactivity_settings db). \<exists>u \<in> set (users db).
          ups_user_id ups = user_id \<and> u_user_id u = user_id
          \<and> is_enabled ups
          \<and> (paused_until ups = None \<or> (\<exists>t. paused_until ups = Some t \<and> t < now))
          \<and> u_is_authorized u
          \<and> ab_test_group ups = Some ''A''))
   \<and> ((\<forall>u \<in> set (users db). u_user_id u = user_id \<longrightarrow> \<not> u_is_authorized u)
        \<longrightarrow> user_id \<notin> set (get_eligible_users db now))
   \<and> ((\<forall>ups \<in> set (user_proactivity_settings db).
           ups_user_id ups = user_id \<longrightarrow> ab_test_group ups \<noteq> Some ''A'')
        \<longrightarrow> user_id \<notin> set (get_eligible_users db now))"
  unfolding eligible_iff pause_over_iff by blast

theorem eligible_users_restricted_witness:
  "get_eligible_users eligibility_db 1000 = [1]
   \<and> 1 \<in> set (get_eligible_users eligibility_db 1000)
   \<and> (\<exists>ups \<in> set (user_proactivity_settings eligibility_db).
         \<exists>u \<in> set (users eligibility_db).
          ups_user_id ups = 1 \<and> u_user_id u = 1 \<and> is_enabled ups
          \<and> (paused_until ups = None \<or> (\<exists>t. paused_until ups = Some t \<and> t < 1000))
          \<and> u_is_authorized u \<and> ab_test_group ups = Some ''A'')
   \<and> filter (\<lambda>u. u_user_id u = 2 \<and> u_is_authorized u) (users eligibility_db) = []
   \<and> 2 \<notin> set (get_eligible_users eligibility_db 1000)
   \<and> filter (\<lambda>ups. ups_user_id ups = 3 \<and> ab_test_group ups = Some ''A'')
         (user_proactivity_settings eligibility_db) = []
   \<and> 3 \<notin> set (get_eligible_users eligibility_db 1000)"
  using eligible_users_restricted [where user_id = 1 and db = eligibility_db and now = 1000]
        eligible_users_restricted [where user_id = 2 and db = eligibility_db and now = 1000]
        eligible_users_restricted [where user_id = 3 and db = eligibility_db and now = 1000]
  by (simp add: eligibility_db_def empty_db_def opted_in_def get_eligible_users_def
        pause_over_def)

subsection \<open>Silence mode\<close>

text \<open>
  C4. When the other two silence conditions do not hold (no average length of responded
  messages below the minimum, fewer than 3 stress emotions), the silence check is false
  for a count of unanswered initiations in the trailing 7 days one below
  \<open>SILENCE_AFTER_IGNORED_COUNT\<close>, and true for a count equal to it.
\<close>

theorem silence_threshold_boundary:
  "(case avg_length db now user_id of
      None \<Rightarrow> True
    | Some a \<Rightarrow> a \<ge> real_of_int (SILENCE_MIN_RESPONSE_LENGTH cfg))
   \<and> stress_count db now user_id < 3
   \<longrightarrow> (ignored_count db now user_id = SILENCE_AFTER_IGNORED_COUNT cfg - 1
          \<longrightarrow> \<not> is_in_silence_mode cfg db now user_id)
       \<and> (ignored_count db now user_id = SILENCE_AFTER_IGNORED_COUNT cfg
          \<longrightarrow> is_in_silence_mode cfg db now user_id)"
  by (auto simp: is_in_silence_mode_def split: option.splits)

theorem silence_threshold_boundary_witness:
  "avg_length one_ignored_db 1000 7 = None \<and> stress_count one_ignored_db 1000 7 < 3
   \<and> ignored_count one_ignored_db 1000 7
       = SILENCE_AFTER_IGNORED_COUNT default_proactivity_config - 1
   \<and> \<not> is_in_silence_mode default_proactivity_config one_ignored_db 1000 7
   \<and> avg_length two_ignored_db 1000 7 = None \<and> stress_count two_ignored_db 1000 7 < 3
   \<and> ignored_count two_ignored_db 1000 7 = SILENCE_AFTER_IGNORED_COUNT default_proactivity_config
   \<and> is_in_silence_mode default_proactivity_config two_ignored_db 1000 7"
  using silence_threshold_boundary [where db = one_ignored_db and now = 1000 and user_id = 7
          and cfg = default_proactivity_config]
        silence_threshold_boundary [where db = two_ignored_db and now = 1000 and user_id = 7
          and cfg = default_proactivity_config]
  by (simp add: one_ignored_db_def two_ignored_db_def empty_db_def sent_log_def
        avg_length_def stress_count_def recent_emotions_def ignored_count_def
        default_proactivity_config_def interval_days_def interval_hours_def
        List.map_filter_simps)

subsection \<open>Continuation mining\<close>





subsection \<open>Response correlation\<close>

lemma find_unresponded_single:
  "filter (unresponded_in_window now user_id) (initiation_logs db) = [entry] \<Longrightarrow>
     find_unresponded db now user_id = Some entry"
  by (simp add: find_unresponded_def)

lemma window_shrinks:
  "unresponded_in_window (now + interval_minutes 1) user_id l \<Longrightarrow>
     unresponded_in_window now user_id l"
  by (simp add: unresponded_in_window_def interval_minutes_def)

lemma find_unresponded_none:
  "filter (unresponded_in_window now user_id) (initiation_logs db) = [] \<Longrightarrow>
     process_user_response lower db now user_id message_text emotion = (False, db)"
  by (simp add: process_user_response_def find_unresponded_def)

lemma twelve_minutes: "py_int (total_seconds (interval_minutes 12) / 60) = 12"
  by (simp add: py_int_def total_seconds_def interval_minutes_def)

lemma received_ids:
  "map sched_id (map (\<lambda>s. if sched_id s = i then s\<lparr> user_response_received := True \<rparr> else s) xs)
     = map sched_id xs"
  by (induction xs) simp_all

lemma received_flag:
  "s \<in> set (map (\<lambda>s. if sched_id s = i then s\<lparr> user_response_received := True \<rparr> else s) xs)
     \<Longrightarrow> sched_id s = i \<Longrightarrow> user_response_received s"
proof -
  assume i: "sched_id s = i"
  assume "s \<in> set (map (\<lambda>s. if sched_id s = i then s\<lparr> user_response_received := True \<rparr> else s) xs)"
  then have "s \<in> (\<lambda>s. if sched_id s = i then s\<lparr> user_response_received := True \<rparr> else s) ` set xs"
    by (simp only: set_map)
  then obtain x where s: "s = (if sched_id x = i then x\<lparr> user_response_received := True \<rparr> else x)"
    by (rule imageE)
  show "user_response_received s"
  proof (cases "sched_id x = i")
    case True
    with s show ?thesis by simp
  next
    case False
    with s i show ?thesis by simp
  qed
qed

lemma schedule_after_response:
  "find_unresponded db now user_id = Some entry \<Longrightarrow>
     initiation_schedule (snd (process_user_response lower db now user_id message_text emotion))
       = (case initiation_id entry of
            None \<Rightarrow> initiation_schedule db
          | Some i \<Rightarrow>
              if i \<noteq> 0
              then map (\<lambda>s. if sched_id s = i
                             then s\<lparr> user_response_received := True \<rparr> else s)
                     (initiation_schedule db)
              else initiation_schedule db)"
  by (simp add: process_user_response_def Let_def)


text \<open>
  C8. For a user with exactly one unresponded log entry created within the last 24 hours,
  \<open>process_user_response\<close> called 12 minutes after the creation of that entry returns
  true, leaves the entry responded with \<open>response_time_minutes = 12\<close>, and sets the
  response-received flag of every schedule row the entry links to (the schedule keeps its
  rows); a second call one minute later finds no unresponded entry in the window and
  returns false with the database unchanged.
\<close>

theorem response_correlation_scenario:
  assumes one: "filter (unresponded_in_window now user_id) (initiation_logs db) = [entry]"
    and at: "now = log_created_at entry + interval_minutes 12"
  shows "fst (process_user_response lower db now user_id message_text emotion)
    \<and> (\<exists>l \<in> set (initiation_logs
            (snd (process_user_response lower db now user_id message_text emotion))).
          log_id l = log_id entry)
    \<and> (\<forall>l \<in> set (initiation_logs
            (snd (process_user_response lower db now user_id message_text emotion))).
          log_id l = log_id entry \<longrightarrow>
            user_responded l \<and> response_time_minutes l = Some 12)
    \<and> map sched_id (initiation_schedule
            (snd (process_user_response lower db now user_id message_text emotion)))
        = map sched_id (initiation_schedule db)
    \<and> (\<forall>i. initiation_id entry = Some i \<and> i \<noteq> 0 \<longrightarrow>
          (\<forall>s \<in> set (initiation_schedule
               (snd (process_user_response lower db now user_id message_text emotion))).
             sched_id s = i \<longrightarrow> user_response_received s))
    \<and> process_user_response lower
          (snd (process_user_response lower db now user_id message_text emotion))
          (now + interval_minutes 1) user_id message_text' emotion'
        = (False, snd (process_user_response lower db now user_id message_text emotion))"
proof -
  let ?r = "process_user_response lower db now user_id message_text emotion"
  define upd :: "log_row \<Rightarrow> log_row" where "upd = (\<lambda>l. if log_id l = log_id entry
                then l\<lparr> user_response := Some (take 1000 message_text),
                        user_response_emotion := emotion,
                        user_response_sentiment :=
                          Some (analyze_response_sentiment lower message_text emotion),
                        user_response_length := Some (int (length message_text)),
                        user_responded := True,
                        response_time_minutes := Some (12::int) \<rparr>
                else l)"
  have upd_same: "user_responded (upd l) \<and> response_time_minutes (upd l) = Some 12"
    if "log_id l = log_id entry" for l
    using that by (simp add: upd_def)
  have upd_other: "upd l = l" if "log_id l \<noteq> log_id entry" for l
    using that by (simp add: upd_def)
  have upd_id: "log_id (upd l) = log_id l" for l
    by (simp add: upd_def)
  have found: "find_unresponded db now user_id = Some entry"
    using one by (rule find_unresponded_single)
  have "entry \<in> set (filter (unresponded_in_window now user_id) (initiation_logs db))"
    using one by simp
  then have mem: "entry \<in> set (initiation_logs db)"
    by simp
  have rt: "py_int (total_seconds (now - log_created_at entry) / 60) = 12"
    using twelve_minutes by (simp add: at)
  have fst_r: "fst ?r"
    by (simp add: process_user_response_def found Let_def)
  have logs: "initiation_logs (snd ?r) = map upd (initiation_logs db)"
    by (simp add: process_user_response_def found Let_def rt upd_def)
  have ex: "\<exists>l \<in> set (initiation_logs (snd ?r)). log_id l = log_id entry"
  proof
    show "upd entry \<in> set (initiation_logs (snd ?r))"
      unfolding logs using mem by simp
    show "log_id (upd entry) = log_id entry"
      by (rule upd_id)
  qed
  have all: "\<forall>l \<in> set (initiation_logs (snd ?r)). log_id l = log_id entry \<longrightarrow>
            user_responded l \<and> response_time_minutes l = Some (12::int)"
  proof (intro ballI impI)
    fix l' assume "l' \<in> set (initiation_logs (snd ?r))" and same: "log_id l' = log_id entry"
    then obtain l where l: "l' = upd l"
      unfolding logs by auto
    with same have "log_id l = log_id entry"
      by (simp add: upd_id)
    then show "user_responded l' \<and> response_time_minutes l' = Some (12::int)"
      unfolding l by (rule upd_same)
  qed
  have ids: "map sched_id (initiation_schedule (snd ?r)) = map sched_id (initiation_schedule db)"
    unfolding schedule_after_response [OF found]
    by (simp add: received_ids split: option.splits)
  have flag: "\<forall>i. initiation_id entry = Some i \<and> i \<noteq> 0 \<longrightarrow>
          (\<forall>s \<in> set (initiation_schedule (snd ?r)). sched_id s = i \<longrightarrow> user_response_received s)"
  proof (intro allI impI ballI, elim conjE)
    fix i s
    assume "initiation_id entry = Some i" "i \<noteq> 0"
      and "s \<in> set (initiation_schedule (snd ?r))" "sched_id s = i"
    then show "user_response_received s"
      unfolding schedule_after_response [OF found] using received_flag [of s i] by simp
  qed
  have none: "filter (unresponded_in_window (now + interval_minutes 1) user_id)
                (initiation_logs (snd ?r)) = []"
  proof -
    have closed: "\<not> unresponded_in_window (now + interval_minutes 1) user_id (upd l)"
      if "l \<in> set (initiation_logs db)" for l
    proof (cases "log_id l = log_id entry")
      case True
      then show ?thesis using upd_same [of l] by (simp add: unresponded_in_window_def)
    next
      case False
      show ?thesis
      proof
        assume "unresponded_in_window (now + interval_minutes 1) user_id (upd l)"
        with False have "unresponded_in_window now user_id l"
          using window_shrinks by (simp add: upd_other)
        with that have "l \<in> set (filter (unresponded_in_window now user_id) (initiation_logs db))"
          by simp
        with one have "l = entry" by simp
        with False show False by simp
      qed
    qed
    have "\<forall>x \<in> set (map upd (initiation_logs db)).
        \<not> unresponded_in_window (now + interval_minutes 1) user_id x"
    proof
      fix x assume "x \<in> set (map upd (initiation_logs db))"
      then obtain l where "l \<in> set (initiation_logs db)" and "x = upd l"
        by auto
      then show "\<not> unresponded_in_window (now + interval_minutes 1) user_id x"
        using closed by simp
    qed
    then show ?thesis
      unfolding logs by (simp only: filter_empty_conv) 
  qed
  have second: "process_user_response lower (snd ?r) (now + interval_minutes 1) user_id
                  message_text' emotion' = (False, snd ?r)"
    using none by (rule find_unresponded_none)
  show ?thesis
    by (intro conjI fst_r ex all ids flag second)
qed

theorem response_correlation_scenario_witness:
  "filter (unresponded_in_window (interval_minutes 12) 7) (initiation_logs response_db)
     = [sent_log 1 7 0]
   \<and> interval_minutes 12 = log_created_at (sent_log 1 7 0) + interval_minutes 12
   \<and> fst (process_user_response (\<lambda>s. s) response_db (interval_minutes 12) 7 [1076, 1072]
            (Some ''joy''))
   \<and> map user_responded (initiation_logs
         (snd (process_user_response (\<lambda>s. s) response_db (interval_minutes 12) 7
                 [1076, 1072] (Some ''joy'')))) = [True]
   \<and> map response_time_minutes (initiation_logs
         (snd (process_user_response (\<lambda>s. s) response_db (interval_minutes 12) 7
                 [1076, 1072] (Some ''joy'')))) = [Some 12]
   \<and> map user_response_received (initiation_schedule
         (snd (process_user_response (\<lambda>s. s) response_db (interval_minutes 12) 7
                 [1076, 1072] (Some ''joy'')))) = [True]
   \<and> process_user_response (\<lambda>s. s)
          (snd (process_user_response (\<lambda>s. s) response_db (interval_minutes 12) 7
                  [1076, 1072] (Some ''joy'')))
          (interval_minutes 12 + interval_minutes 1) 7 [1076, 1072] None
        = (False, snd (process_user_response (\<lambda>s. s) response_db (interval_minutes 12) 7
                         [1076, 1072] (Some ''joy'')))"
proof -
  have h1: "filter (unresponded_in_window (interval_minutes 12) 7) (initiation_logs response_db)
      = [sent_log 1 7 0]"
    by (simp add: response_db_def empty_db_def unresponded_in_window_def sent_log_def
          interval_minutes_def interval_hours_def)
  have h2: "interval_minutes 12 = log_created_at (sent_log 1 7 0) + interval_minutes 12"
    by (simp add: sent_log_def)
  have found: "find_unresponded response_db (interval_minutes 12) 7 = Some (sent_log 1 7 0)"
    using h1 by (rule find_unresponded_single)
  have rt: "py_int (total_seconds (interval_minutes 12 - log_created_at (sent_log 1 7 0)) / 60)
      = 12"
    using twelve_minutes by (simp add: sent_log_def)
  have logs: "initiation_logs
      (snd (process_user_response (\<lambda>s. s) response_db (interval_minutes 12) 7 [1076, 1072]
              (Some ''joy'')))
      = [(sent_log 1 7 0)\<lparr> user_response := Some [1076, 1072],
           user_response_emotion := Some ''joy'',
           user_response_sentiment :=
             Some (analyze_response_sentiment (\<lambda>s. s) [1076, 1072] (Some ''joy'')),
           user_response_length := Some 2, user_responded := True,
           response_time_minutes := Some 12 \<rparr>]"
    by (simp add: process_user_response_def found Let_def rt)
       (simp add: response_db_def empty_db_def rt)
  have sched: "map user_response_received (initiation_schedule
      (snd (process_user_response (\<lambda>s. s) response_db (interval_minutes 12) 7 [1076, 1072]
              (Some ''joy'')))) = [True]"
    unfolding schedule_after_response [OF found]
    by (simp add: sent_log_def response_db_def empty_db_def schedule_example_def)
  note c = response_correlation_scenario [OF h1 h2, where lower = "\<lambda>s. s"
      and message_text = "[1076, 1072]" and emotion = "Some ''joy''"
      and message_text' = "[1076, 1072]" and emotion' = None]
  from c have c1: "fst (process_user_response (\<lambda>s. s) response_db (interval_minutes 12) 7
      [1076, 1072] (Some ''joy''))"
    by (rule conjunct1)
  from c have c6: "process_user_response (\<lambda>s. s)
          (snd (process_user_response (\<lambda>s. s) response_db (interval_minutes 12) 7
                  [1076, 1072] (Some ''joy'')))
          (interval_minutes 12 + interval_minutes 1) 7 [1076, 1072] None
        = (False, snd (process_user_response (\<lambda>s. s) response_db (interval_minutes 12) 7
                         [1076, 1072] (Some ''joy'')))"
    by (elim conjE)
  have l1: "map user_responded (initiation_logs
         (snd (process_user_response (\<lambda>s. s) response_db (interval_minutes 12) 7
                 [1076, 1072] (Some ''joy'')))) = [True]"
    unfolding logs by simp
  have l2: "map response_time_minutes (initiation_logs
         (snd (process_user_response (\<lambda>s. s) response_db (interval_minutes 12) 7
                 [1076, 1072] (Some ''joy'')))) = [Some 12]"
    unfolding logs by simp
  show ?thesis
    by (intro conjI h1 h2 c1 l1 l2 sched c6)
qed

subsection \<open>Status transitions of schedule rows\<close>































text \<open>
  A cancellation that comes between the fetch and the mark: the sweep fetched row 1 as
  pending, user 7 disables proactivity, which cancels the row, and the mark of the sweep
  then writes \<open>sent\<close> over \<open>cancelled\<close>.
\<close>

lemma sweep_overtaken_by_disable:
  "map status (initiation_schedule dispatch_db) = [PENDING, SENT, PENDING, PENDING]
   \<and> map status (initiation_schedule (apply_op (\<lambda>s. s) dispatch_db (Disable 105 7)))
       = [CANCELLED, SENT, PENDING, PENDING]
   \<and> map status (initiation_schedule (run_engine (\<lambda>s. s) dispatch_db overtaken_ops))
       = [SENT, SENT, SENT, PENDING]
   \<and> \<not> marks_in_order (\<lambda>s. s) dispatch_db overtaken_ops"
proof -
  have sweep: "send_scheduled_initiations (\<lambda>s. Delivered 110 []) 100 dispatch_db
      = [MarkSent 110 1 [], MarkSent 110 3 []]"
    by (simp add: send_scheduled_initiations_def get_pending_initiations_def dispatch_db_def
          empty_db_def schedule_example_def mark_for_def)
  show ?thesis
    by (simp add: overtaken_ops_def sweep run_engine_def)
       (simp add: dispatch_db_def empty_db_def rows_with_id_def schedule_example_def
          mark_initiation_sent_def disable_proactivity_def)
qed




end
